theory Spec2Isabelle
  imports Main "HOL-Library.Char_ord" "HOL-Library.List_Lexorder" "HOL-Library.Sublist"
begin

section \<open>GitHub Repository Monitor: a shallow embedding\<close>

text \<open>
  The development follows \<^verbatim>\<open>src/github_monitor.py\<close> (class \<^verbatim>\<open>GitHubMonitor\<close> and
  \<^verbatim>\<open>main\<close>) and the configuration summary of \<^verbatim>\<open>src/setup_config.py\<close>.

  Conventions of the embedding:
  \<^item> a Python \<^verbatim>\<open>str\<close> is a \<open>string\<close>; a \<open>char\<close> stands for the code point of the same
    number (code points from 256 on are not represented);
  \<^item> the working directory is an association list from file names to modification time
    and content, in the order \<^verbatim>\<open>os.listdir\<close> reports them;
  \<^item> the configuration file is its text; writing it is modelled, reading it
    (\<^verbatim>\<open>ConfigParser.read\<close>) is an oracle of the environment, and what \<^verbatim>\<open>ConfigParser\<close> does
    with the values it holds (interpolation on \<^verbatim>\<open>get\<close>, the check on \<^verbatim>\<open>set\<close>) is modelled;
  \<^item> what the network answers is read from an environment record of oracles, and every
    request made is appended to a request log in the state;
  \<^item> what goes to the terminal is a list of output items, one per \<^verbatim>\<open>print\<close> call.
\<close>

subsection \<open>Python strings\<close>

definition LF :: char where
  "LF = CHR 0x0A"

definition CR :: char where
  "CR = CHR 0x0D"

text \<open>\<^verbatim>\<open>str.isspace\<close> on a single character, for code points below 256.\<close>

definition isspace :: "char \<Rightarrow> bool" where
  "isspace c = (of_char c \<in> {9, 10, 11, 12, 13, 28, 29, 30, 31, 32, 133, 160 :: nat})"

text \<open>\<^verbatim>\<open>s.strip()\<close>: leading and trailing whitespace removed.\<close>

definition strip :: "string \<Rightarrow> string" where
  "strip s = rev (dropWhile isspace (rev (dropWhile isspace s)))"

text \<open>
  Iterating over a file opened in text mode (\<^verbatim>\<open>for line in f\<close>): universal newlines, so
  a line ends at \<^verbatim>\<open>\n\<close>, \<^verbatim>\<open>\r\n\<close> or \<^verbatim>\<open>\r\<close>, each read as \<^verbatim>\<open>\n\<close> and kept at the end of the
  line; a last line without a terminator is reported as it is. The first argument is the
  line read so far.
\<close>

fun file_lines :: "string \<Rightarrow> string \<Rightarrow> string list" where
  "file_lines cur [] = (if cur = [] then [] else [cur])"
| "file_lines cur (c # cs) =
     (if c = CR \<and> cs \<noteq> [] \<and> hd cs = LF then (cur @ [LF]) # file_lines [] (tl cs)
      else if c = CR \<or> c = LF then (cur @ [LF]) # file_lines [] cs
      else file_lines (cur @ [c]) cs)"

text \<open>\<^verbatim>\<open>str(n)\<close> for a non-negative integer.\<close>

fun str_nat :: "nat \<Rightarrow> string" where
  "str_nat n =
     (if n < 10 then [char_of (48 + n)] else str_nat (n div 10) @ [char_of (48 + n mod 10)])"

declare str_nat.simps [simp del]

subsection \<open>The differ\<close>

text \<open>
  The two list comprehensions of \<^verbatim>\<open>compare_repositories\<close>:
  \<^verbatim>\<open>[repo for repo in current_list if repo not in previous_list]\<close> and
  \<^verbatim>\<open>[repo for repo in previous_list if repo not in current_list]\<close>.
  Python's \<^verbatim>\<open>in\<close> on a list compares with \<^verbatim>\<open>==\<close>, element by element.
\<close>

fun py_in :: "string \<Rightarrow> string list \<Rightarrow> bool" where
  "py_in x [] = False"
| "py_in x (y # ys) = (if x = y then True else py_in x ys)"

fun not_in_comprehension :: "string list \<Rightarrow> string list \<Rightarrow> string list" where
  "not_in_comprehension [] other = []"
| "not_in_comprehension (repo # rest) other =
     (if \<not> py_in repo other then repo # not_in_comprehension rest other
      else not_in_comprehension rest other)"

definition added_repos_of :: "string list \<Rightarrow> string list \<Rightarrow> string list" where
  "added_repos_of current_list previous_list = not_in_comprehension current_list previous_list"

definition deleted_repos_of :: "string list \<Rightarrow> string list \<Rightarrow> string list" where
  "deleted_repos_of current_list previous_list = not_in_comprehension previous_list current_list"

subsection \<open>Snapshot files\<close>

text \<open>What \<^verbatim>\<open>_save_list_to_file\<close> writes: \<^verbatim>\<open>f.write(f"{item}\n")\<close> for each item.\<close>

definition snapshot_text :: "string list \<Rightarrow> string" where
  "snapshot_text items = concat (map (\<lambda>item. item @ [LF]) items)"

text \<open>
  How \<^verbatim>\<open>run\<close> loads a snapshot:
  \<^verbatim>\<open>[line.strip() for line in f if line.strip()]\<close>.
\<close>

definition load_list :: "string \<Rightarrow> string list" where
  "load_list txt = map strip (filter (\<lambda>line. strip line \<noteq> []) (file_lines [] txt))"

subsection \<open>The environment and the state\<close>

text \<open>
  The answer to a validation call (\<^verbatim>\<open>GET /user\<close>, \<^verbatim>\<open>GET /orgs/{org}\<close>): status 200, another
  status whose JSON body carries the given message, or a \<^verbatim>\<open>RequestException\<close> with the
  given text. A body of a non-200 answer that is not a JSON object is not modelled.
\<close>

datatype vreply = Status_200 | Status_other string | Request_exception string

text \<open>
  The body of a page of the repository listing, as \<^verbatim>\<open>response.json()\<close> sees it: not JSON
  (the call raises), JSON that is not a list, or a list, each element giving its
  \<^verbatim>\<open>full_name\<close> or lacking one (\<open>None\<close>: \<^verbatim>\<open>repo["full_name"]\<close> raises).
\<close>

datatype body = Bad_json string | Not_a_list | Repos "string option list"

text \<open>
  One attempt at a page: the request or \<^verbatim>\<open>raise_for_status\<close> raises with the given text,
  or a body arrives.
\<close>

datatype reply = Failed string | Resp body

text \<open>
  What \<^verbatim>\<open>requests.post\<close> comes to for the webhook: an exception with the given text, or a
  final response with its status code, reason and URL.
\<close>

datatype post_reply = Post_exception string | Post_response nat string string

text \<open>
  The state of a \<^verbatim>\<open>ConfigParser\<close>: the options of the \<^verbatim>\<open>DEFAULT\<close> section and the other
  sections in their order, each with its options in their order. The values are the raw
  ones, before interpolation.
\<close>

record parser_state =
  defaults :: "(string \<times> string) list"
  sections :: "(string \<times> (string \<times> string) list) list"

record env =
  home :: string
  date_today :: string
  timestamp :: string
  mtime_now :: nat
  user_reply :: vreply
  org_reply :: vreply
  repos_reply :: "nat \<Rightarrow> nat \<Rightarrow> reply"
  webhook_reply :: post_reply
  parse_ini :: "string \<Rightarrow> string + parser_state"

text \<open>
  \<open>date_today\<close> is \<^verbatim>\<open>datetime.now().strftime("%Y-%m-%d")\<close> at construction, \<open>timestamp\<close>
  the time stamp of the log lines (one value for the whole run), \<open>mtime_now\<close> the
  modification time given to the files the run writes. \<open>repos_reply env page attempt\<close>
  answers the attempt numbered \<open>attempt\<close> (from 0) at the page. \<open>parse_ini env txt\<close> is what
  \<^verbatim>\<open>ConfigParser.read\<close> makes of a file with the text \<open>txt\<close>: the text of the exception it
  raises, or the state of the parser after it.
\<close>

record settings =
  organization :: string
  github_token :: string
  slack_webhook_url :: string
  enable_slack :: bool

text \<open>
  The fields of a \<^verbatim>\<open>GitHubMonitor\<close> object; \<open>config\<close> is the state of its
  \<^verbatim>\<open>ConfigParser\<close>.
\<close>

record monitor = settings +
  today :: string
  config_file :: string
  config :: parser_state

text \<open>The exceptions of \<^verbatim>\<open>configparser\<close> that the configuration can raise.\<close>

datatype exn =
    Parsing_error string
  | Interpolation_depth_error
  | Interpolation_syntax_error
  | Interpolation_missing_option_error string
  | Not_a_boolean string
  | Invalid_interpolation_syntax string

datatype field_value = None_text | Bullets "string list"

record payload =
  color :: string
  title :: string
  text_line :: string
  added_title :: string
  added_value :: field_value
  deleted_title :: string
  deleted_value :: field_value

text \<open>
  The requests sent. \<open>Get_repos org token type per_page page\<close> is the listing request of
  \<^verbatim>\<open>fetch_repositories\<close> with its three query parameters.
\<close>

datatype request =
    Get_user string
  | Get_org string string
  | Get_repos string string string nat nat
  | Post_webhook string payload

text \<open>
  What is printed. \<open>Print\<close> is the builtin \<^verbatim>\<open>print\<close>; \<open>Rich\<close> and \<open>Rich_bold\<close> are
  \<^verbatim>\<open>console.print\<close> of a markup text, without and with \<^verbatim>\<open>style="bold"\<close>; \<open>Table_out\<close> is a
  two-column table by its rows. The three borders of \<^verbatim>\<open>print_table\<close> (a bold line of
  48 heavy horizontal bars, the first after a line break, the last before one) and its
  bulleted entry \<^verbatim>\<open>"[blue](bullet) {display_item}[/blue]"\<close> have items of their own, since
  their characters are not ASCII. \<open>Print_error\<close> is \<^verbatim>\<open>print(f"Error: {e}")\<close> for an exception.
\<close>

datatype out =
    Print string
  | Rich string
  | Rich_bold string
  | Border_top
  | Border_mid
  | Border_bottom
  | Bullet string
  | Table_out "(string \<times> string) list"
  | Print_error exn

text \<open>
  The state: the working directory, the text of the configuration file (\<open>None\<close> when there
  is none), the terminal, the requests sent and the seconds slept.
\<close>

record world =
  files :: "(string \<times> nat \<times> string) list"
  config_text :: "string option"
  console :: "out list"
  requests :: "request list"
  slept :: nat

subsection \<open>Files\<close>

definition exists_file :: "string \<Rightarrow> world \<Rightarrow> bool" where
  "exists_file name w = (name \<in> fst ` set (files w))"

definition read_file :: "string \<Rightarrow> world \<Rightarrow> string option" where
  "read_file name w = map_option snd (map_of (files w) name)"

fun put :: "string \<Rightarrow> nat \<times> string \<Rightarrow> (string \<times> nat \<times> string) list \<Rightarrow> (string \<times> nat \<times> string) list" where
  "put name v [] = [(name, v)]"
| "put name v (p # ps) = (if fst p = name then (name, v) # ps else p # put name v ps)"

text \<open>\<^verbatim>\<open>open(name, "w")\<close> and the writes until the file is closed.\<close>

definition write_file :: "env \<Rightarrow> string \<Rightarrow> string \<Rightarrow> world \<Rightarrow> world" where
  "write_file e name txt w = w\<lparr>files := put name (mtime_now e, txt) (files w)\<rparr>"

text \<open>\<^verbatim>\<open>open(name, "a")\<close> and one write.\<close>

definition append_file :: "env \<Rightarrow> string \<Rightarrow> string \<Rightarrow> world \<Rightarrow> world" where
  "append_file e name txt w =
     write_file e name ((case read_file name w of None \<Rightarrow> [] | Some old \<Rightarrow> old) @ txt) w"

definition remove_file :: "string \<Rightarrow> world \<Rightarrow> world" where
  "remove_file name w = w\<lparr>files := filter (\<lambda>p. fst p \<noteq> name) (files w)\<rparr>"

text \<open>\<^verbatim>\<open>os.listdir(".")\<close>: the entries of the working directory itself.\<close>

definition listdir :: "world \<Rightarrow> string list" where
  "listdir w = filter (\<lambda>name. CHR ''/'' \<notin> set name) (map fst (files w))"

definition getmtime :: "string \<Rightarrow> world \<Rightarrow> nat" where
  "getmtime name w = (case map_of (files w) name of None \<Rightarrow> 0 | Some v \<Rightarrow> fst v)"

definition emit :: "out \<Rightarrow> world \<Rightarrow> world" where
  "emit x w = w\<lparr>console := console w @ [x]\<rparr>"

text \<open>
  A function of the program returns with a value or is left by an exception, in both cases
  in some state.
\<close>

datatype 'a result = Raise exn world | Return 'a world

subsection \<open>The configuration parser\<close>

text \<open>
  \<^verbatim>\<open>str.lower\<close> for code points below 256: the letters A to Z and the capital letters of
  Latin-1.
\<close>

definition lower_char :: "char \<Rightarrow> char" where
  "lower_char c =
     (let n = (of_char c :: nat)
      in if (65 \<le> n \<and> n \<le> 90) \<or> (192 \<le> n \<and> n \<le> 222 \<and> n \<noteq> 215) then char_of (n + 32) else c)"

definition lower :: "string \<Rightarrow> string" where
  "lower s = map lower_char s"

text \<open>
  The pattern \<^verbatim>\<open>%\(([^)]+)\)s\<close> of \<^verbatim>\<open>BasicInterpolation\<close>, matched at a text from which
  \<^verbatim>\<open>%(\<close> has been read: the name up to the first \<^verbatim>\<open>)\<close>, not empty, then \<^verbatim>\<open>)s\<close>. The result is
  the name and the text after the match.
\<close>

definition key_match :: "string \<Rightarrow> (string \<times> string) option" where
  "key_match s =
     (let var = takeWhile (\<lambda>c. c \<noteq> CHR '')'') s;
          after = dropWhile (\<lambda>c. c \<noteq> CHR '')'') s
      in if var \<noteq> [] \<and> take 2 after = '')s'' then Some (var, drop 2 after) else None)"

text \<open>
  \<^verbatim>\<open>BasicInterpolation._interpolate_some\<close>, which \<^verbatim>\<open>get\<close> applies to a raw value: \<^verbatim>\<open>%%\<close> is a
  percent sign, \<^verbatim>\<open>%(name)s\<close> the value of the option \<open>name\<close> (in lower case) among the
  options \<open>d\<close> of the section and the defaults, itself interpolated when it has a percent
  sign; anything else after a percent sign is an error. The first argument is the number
  of levels still allowed: the library starts at depth 1 and raises beyond depth 10.
\<close>

function (sequential) interpolate_some ::
  "nat \<Rightarrow> (string \<Rightarrow> string option) \<Rightarrow> string \<Rightarrow> exn + string" where
  "interpolate_some 0 d rest = Inl Interpolation_depth_error"
| "interpolate_some (Suc k) d [] = Inr []"
| "interpolate_some (Suc k) d [c] = (if c = CHR ''%'' then Inl Interpolation_syntax_error else Inr [c])"
| "interpolate_some (Suc k) d (c # c2 # cs) =
     (if c \<noteq> CHR ''%'' then
        (case interpolate_some (Suc k) d (c2 # cs) of Inl ex \<Rightarrow> Inl ex | Inr t \<Rightarrow> Inr (c # t))
      else if c2 = CHR ''%'' then
        (case interpolate_some (Suc k) d cs of Inl ex \<Rightarrow> Inl ex | Inr t \<Rightarrow> Inr (CHR ''%'' # t))
      else if c2 = CHR ''('' then
        (case key_match cs of
           None \<Rightarrow> Inl Interpolation_syntax_error
         | Some (var, rest) \<Rightarrow>
             (case d (lower var) of
                None \<Rightarrow> Inl (Interpolation_missing_option_error (lower var))
              | Some v \<Rightarrow>
                  (case (if CHR ''%'' \<in> set v then interpolate_some k d v else Inr v) of
                     Inl ex \<Rightarrow> Inl ex
                   | Inr t \<Rightarrow>
                       (case interpolate_some (Suc k) d rest of
                          Inl ex \<Rightarrow> Inl ex
                        | Inr t' \<Rightarrow> Inr (t @ t')))))
      else Inl Interpolation_syntax_error)"
  by pat_completeness auto

termination
proof (relation "measures [\<lambda>(k, d, rest). k, \<lambda>(k, d, rest). length rest]")
  fix k :: nat and d :: "string \<Rightarrow> string option" and c c2 :: char and cs :: string
    and x2 :: "string \<times> string" and var rest :: string
  assume "key_match cs = Some x2" and "(var, rest) = x2"
  then have "rest = drop 2 (dropWhile (\<lambda>c. c \<noteq> CHR '')'') cs)"
    by (auto simp: key_match_def Let_def split: if_splits)
  then have "length rest \<le> length cs"
    using length_dropWhile_le[of "\<lambda>c. c \<noteq> CHR '')''" cs] by simp
  then show "((Suc k, d, rest), (Suc k, d, c # c2 # cs))
               \<in> measures [\<lambda>(k, d, rest). k, \<lambda>(k, d, rest). length rest]"
    by simp
qed simp_all

text \<open>
  The options a \<^verbatim>\<open>get\<close> in a section sees: those of the section before the defaults.
\<close>

definition has_section :: "parser_state \<Rightarrow> string \<Rightarrow> bool" where
  "has_section p name = (name \<in> fst ` set (sections p))"

definition unify_values :: "parser_state \<Rightarrow> string \<Rightarrow> string \<Rightarrow> string option" where
  "unify_values p name =
     map_of ((case map_of (sections p) name of None \<Rightarrow> [] | Some opts \<Rightarrow> opts) @ defaults p)"

text \<open>
  \<^verbatim>\<open>config.get(section, option, fallback=...)\<close> and \<^verbatim>\<open>config.getboolean(...)\<close>: the fallback
  stands in for a missing section or option, not for an error of the interpolation or a
  value that is no boolean.
\<close>

definition config_get :: "parser_state \<Rightarrow> string \<Rightarrow> string \<Rightarrow> string \<Rightarrow> exn + string" where
  "config_get p name opt fallback =
     (if \<not> has_section p name then Inr fallback
      else case unify_values p name opt of
             None \<Rightarrow> Inr fallback
           | Some v \<Rightarrow> interpolate_some 10 (unify_values p name) v)"

definition config_getboolean :: "parser_state \<Rightarrow> string \<Rightarrow> string \<Rightarrow> bool \<Rightarrow> exn + bool" where
  "config_getboolean p name opt fallback =
     (if \<not> has_section p name then Inr fallback
      else case unify_values p name opt of
             None \<Rightarrow> Inr fallback
           | Some v \<Rightarrow>
               (case interpolate_some 10 (unify_values p name) v of
                  Inl ex \<Rightarrow> Inl ex
                | Inr t \<Rightarrow>
                    if lower t \<in> {''1'', ''yes'', ''true'', ''on''} then Inr True
                    else if lower t \<in> {''0'', ''no'', ''false'', ''off''} then Inr False
                    else Inl (Not_a_boolean t)))"

text \<open>
  \<^verbatim>\<open>BasicInterpolation.before_set\<close>, the check of a value that is set: with every \<^verbatim>\<open>%%\<close>
  and then every \<^verbatim>\<open>%(name)s\<close> taken out, no percent sign may be left.
\<close>

fun remove_escaped :: "string \<Rightarrow> string" where
  "remove_escaped (c # c2 # cs) =
     (if c = CHR ''%'' \<and> c2 = CHR ''%'' then remove_escaped cs else c # remove_escaped (c2 # cs))"
| "remove_escaped cs = cs"

function (sequential) remove_keys :: "string \<Rightarrow> string" where
  "remove_keys (c # c2 # cs) =
     (if c = CHR ''%'' \<and> c2 = CHR ''('' then
        (case key_match cs of
           None \<Rightarrow> c # remove_keys (c2 # cs)
         | Some (var, rest) \<Rightarrow> remove_keys rest)
      else c # remove_keys (c2 # cs))"
| "remove_keys cs = cs"
  by pat_completeness auto

termination
proof (relation "measure length")
  fix c c2 :: char and cs :: string and x2 :: "string \<times> string" and var rest :: string
  assume "key_match cs = Some x2" and "(var, rest) = x2"
  then have "rest = drop 2 (dropWhile (\<lambda>c. c \<noteq> CHR '')'') cs)"
    by (auto simp: key_match_def Let_def split: if_splits)
  then have "length rest \<le> length cs"
    using length_dropWhile_le[of "\<lambda>c. c \<noteq> CHR '')''" cs] by simp
  then show "(rest, c # c2 # cs) \<in> measure length" by simp
qed simp_all

definition before_set_ok :: "string \<Rightarrow> bool" where
  "before_set_ok v = (CHR ''%'' \<notin> set (remove_keys (remove_escaped v)))"

text \<open>
  \<^verbatim>\<open>config[name] = {...}\<close>: the section is emptied or added at the end, and the options
  are set in their order. A value that is not empty is checked when it is set; the first
  that fails raises \<^verbatim>\<open>ValueError\<close>.
\<close>

definition set_section ::
  "parser_state \<Rightarrow> string \<Rightarrow> (string \<times> string) list \<Rightarrow> exn + parser_state" where
  "set_section p name opts =
     (case filter (\<lambda>kv. snd kv \<noteq> [] \<and> \<not> before_set_ok (snd kv)) opts of
        kv # _ \<Rightarrow> Inl (Invalid_interpolation_syntax (snd kv))
      | [] \<Rightarrow>
          Inr (p\<lparr>sections :=
                 (if has_section p name
                  then map (\<lambda>sec. if fst sec = name then (name, opts) else sec) (sections p)
                  else sections p @ [(name, opts)])\<rparr>))"

text \<open>
  \<^verbatim>\<open>config.write(f)\<close>: the defaults, if any, then the sections; an option as
  \<^verbatim>\<open>key = value\<close>, a line break in a value followed by a tab; an empty line after each
  section.
\<close>

fun indent_breaks :: "string \<Rightarrow> string" where
  "indent_breaks [] = []"
| "indent_breaks (c # cs) =
     (if c = LF then LF # CHR 0x09 # indent_breaks cs else c # indent_breaks cs)"

definition write_section :: "string \<Rightarrow> (string \<times> string) list \<Rightarrow> string" where
  "write_section name opts =
     ''['' @ name @ '']'' @ [LF] @
     concat (map (\<lambda>kv. fst kv @ '' = '' @ indent_breaks (snd kv) @ [LF]) opts) @ [LF]"

definition ini_write :: "parser_state \<Rightarrow> string" where
  "ini_write p =
     (if defaults p \<noteq> [] then write_section ''DEFAULT'' (defaults p) else []) @
     concat (map (\<lambda>sec. write_section (fst sec) (snd sec)) (sections p))"

subsection \<open>The monitor object: names, logging, configuration\<close>

definition repo_list_file :: "'a monitor_scheme \<Rightarrow> string" where
  "repo_list_file m = ''repo-list-'' @ today m"

definition added_repos_file :: "'a monitor_scheme \<Rightarrow> string" where
  "added_repos_file m = ''added-repos-'' @ today m"

definition deleted_repos_file :: "'a monitor_scheme \<Rightarrow> string" where
  "deleted_repos_file m = ''deleted-repos-'' @ today m"

definition backup_dir :: "'a monitor_scheme \<Rightarrow> string" where
  "backup_dir m = ''backups_'' @ today m"

definition log_file :: string where
  "log_file = ''github-monitor.log''"

definition Fore_GREEN :: string where "Fore_GREEN = CHR 0x1B # ''[32m''"
definition Fore_YELLOW :: string where "Fore_YELLOW = CHR 0x1B # ''[33m''"
definition Fore_RED :: string where "Fore_RED = CHR 0x1B # ''[31m''"
definition Fore_WHITE :: string where "Fore_WHITE = CHR 0x1B # ''[37m''"
definition Style_RESET_ALL :: string where "Style_RESET_ALL = CHR 0x1B # ''[0m''"

definition log :: "env \<Rightarrow> string \<Rightarrow> string \<Rightarrow> world \<Rightarrow> world" where
  "log e level message w =
     (let stamped = ''['' @ timestamp e @ ''] ['' @ level @ ''] '' @ message;
          console_msg =
            (if level = ''INFO'' then Fore_GREEN @ stamped @ Style_RESET_ALL
             else if level = ''WARNING'' then Fore_YELLOW @ stamped @ Style_RESET_ALL
             else if level = ''ERROR'' then Fore_RED @ stamped @ Style_RESET_ALL
             else Fore_WHITE @ stamped @ Style_RESET_ALL)
      in append_file e log_file (stamped @ [LF]) (emit (Print console_msg) w))"

definition log_info :: "env \<Rightarrow> string \<Rightarrow> world \<Rightarrow> world" where
  "log_info e message w = log e ''INFO'' message w"

definition log_warning :: "env \<Rightarrow> string \<Rightarrow> world \<Rightarrow> world" where
  "log_warning e message w = log e ''WARNING'' message w"

definition log_error :: "env \<Rightarrow> string \<Rightarrow> world \<Rightarrow> world" where
  "log_error e message w = log e ''ERROR'' message w"

text \<open>
  \<^verbatim>\<open>save_config\<close>: the four settings are set in the parser, which may raise, and the parser
  is written to the configuration file. (The mode of the file is not represented.)
\<close>

definition save_config :: "monitor \<Rightarrow> world \<Rightarrow> monitor result" where
  "save_config m w =
     (case set_section (config m) ''Settings''
             [(''organization'', organization m),
              (''github_token'', github_token m),
              (''slack_webhook_url'', slack_webhook_url m),
              (''enable_slack'', if enable_slack m then ''True'' else ''False'')] of
        Inl ex \<Rightarrow> Raise ex w
      | Inr p \<Rightarrow> Return (m\<lparr>config := p\<rparr>) (w\<lparr>config_text := Some (ini_write p)\<rparr>))"

text \<open>
  \<^verbatim>\<open>load_config\<close>. An existing file is read; with a \<^verbatim>\<open>Settings\<close> section the four settings
  are taken from it, in this order, each \<^verbatim>\<open>get\<close> with its interpolation. Without a file the
  section is set to empty values and saved.
\<close>

definition load_config :: "env \<Rightarrow> monitor \<Rightarrow> world \<Rightarrow> monitor result" where
  "load_config e m w =
     (case config_text w of
        Some txt \<Rightarrow>
          (case parse_ini e txt of
             Inl err \<Rightarrow> Raise (Parsing_error err) w
           | Inr p \<Rightarrow>
               if has_section p ''Settings'' then
                 (case config_get p ''Settings'' ''organization'' [] of
                    Inl ex \<Rightarrow> Raise ex w
                  | Inr org \<Rightarrow>
                 (case config_get p ''Settings'' ''github_token'' [] of
                    Inl ex \<Rightarrow> Raise ex w
                  | Inr tok \<Rightarrow>
                 (case config_get p ''Settings'' ''slack_webhook_url'' [] of
                    Inl ex \<Rightarrow> Raise ex w
                  | Inr url \<Rightarrow>
                 (case config_getboolean p ''Settings'' ''enable_slack'' False of
                    Inl ex \<Rightarrow> Raise ex w
                  | Inr enable \<Rightarrow>
                      Return (m\<lparr>organization := org, github_token := tok,
                                slack_webhook_url := url, enable_slack := enable,
                                config := p\<rparr>) w))))
               else Return (m\<lparr>config := p\<rparr>) w)
      | None \<Rightarrow>
          (case set_section (config m) ''Settings''
                  [(''organization'', []), (''github_token'', []),
                   (''slack_webhook_url'', []), (''enable_slack'', ''False'')] of
             Inl ex \<Rightarrow> Raise ex w
           | Inr p \<Rightarrow> save_config (m\<lparr>config := p\<rparr>) w))"

definition setup_logging :: "env \<Rightarrow> world \<Rightarrow> world" where
  "setup_logging e w = log_info e ''GitHub Repository Monitor initialized'' w"

text \<open>The constructor \<^verbatim>\<open>GitHubMonitor()\<close>.\<close>

definition init_monitor :: "env \<Rightarrow> world \<Rightarrow> monitor result" where
  "init_monitor e w =
     (let m0 = \<lparr>organization = [], github_token = [], slack_webhook_url = [],
                enable_slack = False, today = date_today e,
                config_file = home e @ ''/.config/github-monitor/config.ini'',
                config = \<lparr>defaults = [], sections = []\<rparr>\<rparr>
      in case load_config e m0 w of
           Raise ex w1 \<Rightarrow> Raise ex w1
         | Return m w1 \<Rightarrow> Return m (setup_logging e w1))"

definition update_config ::
  "env \<Rightarrow> monitor \<Rightarrow> string option \<Rightarrow> string option \<Rightarrow> string option \<Rightarrow> bool option \<Rightarrow> world
    \<Rightarrow> monitor result" where
  "update_config e m org tok url enable w =
     (let m1 = (case org of None \<Rightarrow> m | Some v \<Rightarrow> m\<lparr>organization := v\<rparr>);
          m2 = (case tok of None \<Rightarrow> m1 | Some v \<Rightarrow> m1\<lparr>github_token := v\<rparr>);
          m3 = (case url of None \<Rightarrow> m2 | Some v \<Rightarrow> m2\<lparr>slack_webhook_url := v\<rparr>);
          m4 = (case enable of None \<Rightarrow> m3 | Some v \<Rightarrow> m3\<lparr>enable_slack := v\<rparr>)
      in case save_config m4 w of
           Raise ex w1 \<Rightarrow> Raise ex w1
         | Return m5 w1 \<Rightarrow> Return m5 (log_info e ''Configuration updated successfully'' w1))"

definition show_config :: "monitor \<Rightarrow> world \<Rightarrow> world" where
  "show_config m w =
     (let w1 = emit (Rich (LF # ''[bold]Current Configuration:[/bold]'')) w;
          token_display = (if github_token m \<noteq> [] then ''********'' else ''[italic]Not set[/italic]'');
          webhook_display =
            (if slack_webhook_url m \<noteq> [] then ''********'' else ''[italic]Not set[/italic]'');
          table =
            [(''Organization'',
               if organization m \<noteq> [] then organization m else ''[italic]Not set[/italic]''),
             (''GitHub Token'', token_display),
             (''Slack Webhook URL'', webhook_display),
             (''Slack Notifications'', if enable_slack m then ''Enabled'' else ''Disabled''),
             (''Config File'', config_file m)]
      in emit (Rich []) (emit (Table_out table) w1))"

text \<open>
  The closing summary of \<^verbatim>\<open>setup_configuration\<close> in \<^verbatim>\<open>src/setup_config.py\<close> (the four
  \<^verbatim>\<open>console.print\<close> calls after "Configuration Summary"), from the values that \<^verbatim>\<open>config.get\<close>
  returns for the four settings just saved. \<^verbatim>\<open>s[-k:]\<close> is the last \<open>k\<close> characters of \<open>s\<close>.
\<close>

definition last_chars :: "nat \<Rightarrow> string \<Rightarrow> string" where
  "last_chars k s = drop (length s - k) s"

definition configuration_summary :: "settings \<Rightarrow> out list" where
  "configuration_summary s =
     [Rich (LF # ''[bold]Configuration Summary:[/bold]''),
      Rich (''Organization: '' @ organization s),
      Rich (''GitHub token: '' @ replicate 8 CHR ''*'' @
            (if length (github_token s) > 4 then last_chars 4 (github_token s) else ''Not set'')),
      Rich (''Slack webhook: '' @ replicate 20 CHR ''*'' @
            (if length (slack_webhook_url s) > 8 then last_chars 8 (slack_webhook_url s)
             else ''Not set'')),
      Rich (''Slack notifications: '' @ (if enable_slack s then ''Enabled'' else ''Disabled''))]"

subsection \<open>Backup, fetch and persistence\<close>

text \<open>\<^verbatim>\<open>_save_list_to_file\<close>.\<close>

definition save_list_to_file :: "env \<Rightarrow> string list \<Rightarrow> string \<Rightarrow> world \<Rightarrow> world" where
  "save_list_to_file e items filename w = write_file e filename (snapshot_text items) w"

text \<open>
  \<^verbatim>\<open>f.read()\<close> of a file opened in text mode gives its text with \<^verbatim>\<open>\r\n\<close> and \<^verbatim>\<open>\r\<close> turned
  into \<^verbatim>\<open>\n\<close>.
\<close>

fun universal_newlines :: "string \<Rightarrow> string" where
  "universal_newlines [] = []"
| "universal_newlines [c] = (if c = CR then [LF] else [c])"
| "universal_newlines (c # c2 # cs) =
     (if c = CR \<and> c2 = LF then LF # universal_newlines cs
      else if c = CR then LF # universal_newlines (c2 # cs)
      else c # universal_newlines (c2 # cs))"

text \<open>
  The body of the loop of \<^verbatim>\<open>backup_files\<close>, for one file: an existing file is copied to
  \<^verbatim>\<open>os.path.join(backup_dir, f"old_{file}")\<close> and removed. Directories are not represented,
  so \<^verbatim>\<open>os.makedirs\<close> leaves no trace.
\<close>

definition backup_one :: "env \<Rightarrow> monitor \<Rightarrow> string \<Rightarrow> world \<Rightarrow> world" where
  "backup_one e m file w =
     (case read_file file w of
        None \<Rightarrow> w
      | Some txt \<Rightarrow>
          (let backup_path = backup_dir m @ ''/'' @ ''old_'' @ file;
               w1 = log_info e (''Backing up '' @ file @ '' to '' @ backup_path) w
           in remove_file file (write_file e backup_path (universal_newlines txt) w1)))"

definition backup_files :: "env \<Rightarrow> monitor \<Rightarrow> world \<Rightarrow> world" where
  "backup_files e m w =
     fold (backup_one e m) [repo_list_file m, added_repos_file m, deleted_repos_file m]
       (log_info e ''Backing up existing files'' w)"

text \<open>
  The retry loop \<^verbatim>\<open>for attempt in range(3)\<close> around one page request, over the attempts
  still to make. The result is \<open>Inr\<close> the body of the response the loop left with
  \<^verbatim>\<open>break\<close>, or \<open>Inl\<close> the text of the exception that leaves it: the one re-raised at
  the attempt numbered 2. (Over \<^verbatim>\<open>range(3)\<close> the loop never runs out of attempts, so the
  first equation is not reached; it stands for the unbound \<^verbatim>\<open>response\<close>.)
\<close>

fun request_with_retry ::
  "env \<Rightarrow> monitor \<Rightarrow> nat \<Rightarrow> nat list \<Rightarrow> world \<Rightarrow> (string + body) \<times> world" where
  "request_with_retry e m page [] w = (Inl ''response'', w)"
| "request_with_retry e m page (attempt # rest) w =
     (let w1 = w\<lparr>requests := requests w @
                 [Get_repos (organization m) (github_token m) ''all'' 100 page]\<rparr>
      in case repos_reply e page attempt of
           Resp b \<Rightarrow> (Inr b, w1)
         | Failed err \<Rightarrow>
             if attempt = 2 then (Inl err, w1)
             else request_with_retry e m page rest
                    ((log_warning e
                        (''API call failed (attempt '' @ str_nat (attempt + 1) @ ''): '' @ err @
                         ''. Retrying...'') w1)\<lparr>slept := slept w1 + 2\<rparr>))"

declare request_with_retry.simps [simp del]

text \<open>
  The \<^verbatim>\<open>while True\<close> loop of \<^verbatim>\<open>fetch_repositories\<close>, from the page \<open>page\<close> on, with the
  names and the count collected so far. The loop need not end (a server can answer every
  page with 100 names): \<open>None\<close> is a loop that never leaves.
\<close>

partial_function (option) fetch_pages ::
  "env \<Rightarrow> monitor \<Rightarrow> nat \<Rightarrow> string list \<Rightarrow> nat \<Rightarrow> world \<Rightarrow> (string list \<times> nat \<times> world) option" where
  "fetch_pages e m page repositories total_repos w =
     (case request_with_retry e m page [0, 1, 2] w of
        (Inl err, w1) \<Rightarrow>
          Some (repositories, total_repos, log_error e (''Error fetching repositories: '' @ err) w1)
      | (Inr (Bad_json err), w1) \<Rightarrow>
          Some (repositories, total_repos, log_error e (''Error fetching repositories: '' @ err) w1)
      | (Inr Not_a_list, w1) \<Rightarrow> Some (repositories, total_repos, w1)
      | (Inr (Repos repos_data), w1) \<Rightarrow>
          if repos_data = [] then Some (repositories, total_repos, w1)
          else if None \<in> set repos_data then
            Some (repositories, total_repos,
                  log_error e (''Error fetching repositories: '' @ [CHR 39] @ ''full_name'' @ [CHR 39]) w1)
          else
            (let page_repos = map the repos_data;
                 count = length page_repos;
                 w2 = log_info e
                        (''Retrieved '' @ str_nat count @ '' repositories on page '' @ str_nat page @
                         '' (total: '' @ str_nat (total_repos + count) @ '')'') w1
             in if count < 100 then Some (repositories @ page_repos, total_repos + count, w2)
                else fetch_pages e m (page + 1) (repositories @ page_repos) (total_repos + count) w2))"

definition fetch_repositories :: "env \<Rightarrow> monitor \<Rightarrow> world \<Rightarrow> (string list \<times> world) option" where
  "fetch_repositories e m w =
     (let w1 = log_info e (''Fetching repositories for '' @ organization m) w
      in if organization m = [] then Some ([], log_error e ''No organization name provided'' w1)
         else
           (let w2 = (if github_token m = []
                      then log_warning e ''GitHub token not provided. API rate limits may apply.'' w1
                      else w1)
            in case fetch_pages e m 1 [] 0 w2 of
                 None \<Rightarrow> None
               | Some (repositories, total_repos, w3) \<Rightarrow>
                   (let sorted_repos = sort repositories;
                        w4 = save_list_to_file e sorted_repos (repo_list_file m) w3
                    in Some (sorted_repos,
                             log_info e (''Successfully fetched '' @ str_nat total_repos @
                                         '' repositories'') w4))))"

text \<open>
  \<^verbatim>\<open>find_previous_list\<close>: the candidates in directory order, sorted by modification time,
  newest first, by a stable sort (\<^verbatim>\<open>reverse=True\<close> keeps the order of equal keys).
\<close>

definition startswith :: "string \<Rightarrow> string \<Rightarrow> bool" where
  "startswith s p = (take (length p) s = p)"

definition find_previous_list :: "env \<Rightarrow> monitor \<Rightarrow> world \<Rightarrow> string option \<times> world" where
  "find_previous_list e m w =
     (let candidates = filter (\<lambda>f. startswith f ''repo-list-'' \<and> f \<noteq> repo_list_file m) (listdir w)
      in if candidates = [] then (None, log_warning e ''No previous repository list found'' w)
         else (Some (hd (sort_key (\<lambda>f. - int (getmtime f w)) candidates)), w))"

definition compare_repositories ::
  "env \<Rightarrow> monitor \<Rightarrow> string list \<Rightarrow> string list \<Rightarrow> world \<Rightarrow> (string list \<times> string list) \<times> world" where
  "compare_repositories e m current_list previous_list w =
     (let w1 = log_info e ''Comparing current list with previous list'' w;
          added_repos = added_repos_of current_list previous_list;
          deleted_repos = deleted_repos_of current_list previous_list;
          w2 = save_list_to_file e added_repos (added_repos_file m) w1;
          w3 = save_list_to_file e deleted_repos (deleted_repos_file m) w2
      in ((added_repos, deleted_repos),
          log_info e (''Found '' @ str_nat (length added_repos) @ '' new repositories and '' @
                      str_nat (length deleted_repos) @ '' deleted repositories'') w3))"

subsection \<open>Reporting\<close>

definition print_header :: "string \<Rightarrow> world \<Rightarrow> world" where
  "print_header ttl w =
     (let width = (80 :: int);
          padding = (width - int (length ttl) - 2) div 2;
          pad = replicate (nat padding) CHR '' ''
      in emit (Rich [])
           (emit (Rich_bold (replicate (nat width) CHR ''=''))
              (emit (Rich_bold (pad @ ttl @ pad))
                 (emit (Rich_bold (replicate (nat width) CHR ''=''))
                    (emit (Rich []) w)))))"

text \<open>The item as \<^verbatim>\<open>print_table\<close> shows it: \<^verbatim>\<open>item[:70] + "..."\<close> when longer than 70.\<close>

definition display_item :: "string \<Rightarrow> string" where
  "display_item item = (if length item > 70 then take 70 item @ ''...'' else item)"

definition print_table :: "string list \<Rightarrow> string \<Rightarrow> world \<Rightarrow> world" where
  "print_table items ttl w =
     (let count = length items;
          w1 = emit Border_top w;
          w2 = emit (Rich (''[bold]'' @ ttl @ ''[/bold]'')) w1;
          w3 = emit Border_mid w2;
          w4 = emit (Rich (''[cyan]Total count: '' @ str_nat count @ ''[/cyan]'')) w3;
          w5 = (if count = 0 then emit (Rich ''[yellow]No entries found[/yellow]'') w4
                else if count < 20 then fold (\<lambda>item. emit (Bullet (display_item item))) items w4
                else emit (Rich ''[yellow]Results saved to file[/yellow]'')
                       (emit (Rich (''[yellow]Too many items to display ('' @ str_nat count @
                                    '' repositories)[/yellow]'')) w4))
      in emit Border_bottom w5)"

subsection \<open>Notification\<close>

text \<open>
  The exception, by its text, that leaves \<^verbatim>\<open>requests.post\<close> followed by
  \<^verbatim>\<open>response.raise_for_status()\<close>, if any: the one of the request, or the \<^verbatim>\<open>HTTPError\<close> that
  \<^verbatim>\<open>raise_for_status\<close> raises for a status from 400 to 599 and for no other.
\<close>

definition post_failure :: "post_reply \<Rightarrow> string option" where
  "post_failure r =
     (case r of
        Post_exception err \<Rightarrow> Some err
      | Post_response status reason url \<Rightarrow>
          if 400 \<le> status \<and> status < 500
          then Some (str_nat status @ '' Client Error: '' @ reason @ '' for url: '' @ url)
          else if 500 \<le> status \<and> status < 600
          then Some (str_nat status @ '' Server Error: '' @ reason @ '' for url: '' @ url)
          else None)"

definition send_slack_notification ::
  "env \<Rightarrow> monitor \<Rightarrow> string list \<Rightarrow> string list \<Rightarrow> world \<Rightarrow> bool \<times> world" where
  "send_slack_notification e m added_repos deleted_repos w =
     (if \<not> enable_slack m \<or> slack_webhook_url m = [] then (True, w)
      else
        (let w1 = log_info e ''Sending notification to Slack'' w;
             added_count = length added_repos;
             deleted_count = length deleted_repos;
             added_list = (if added_repos \<noteq> [] then Bullets added_repos else None_text);
             deleted_list = (if deleted_repos \<noteq> [] then Bullets deleted_repos else None_text);
             p = \<lparr>color = (if added_count > 0 \<or> deleted_count > 0 then ''#ff9800'' else ''#36a64f''),
                  title = ''GitHub Repository Change Report for '' @ organization m,
                  text_line = ''Changes detected on '' @ today m,
                  added_title = ''Added Repositories ('' @ str_nat added_count @ '')'',
                  added_value = added_list,
                  deleted_title = ''Deleted Repositories ('' @ str_nat deleted_count @ '')'',
                  deleted_value = deleted_list\<rparr>;
             w2 = w1\<lparr>requests := requests w1 @ [Post_webhook (slack_webhook_url m) p]\<rparr>
         in case post_failure (webhook_reply e) of
              None \<Rightarrow> (True, log_info e ''Slack notification sent successfully'' w2)
            | Some err \<Rightarrow> (False, log_error e (''Failed to send Slack notification: '' @ err) w2)))"

subsection \<open>Validation\<close>

definition validate_token :: "env \<Rightarrow> monitor \<Rightarrow> world \<Rightarrow> bool \<times> world" where
  "validate_token e m w =
     (if github_token m = [] then (False, log_warning e ''No GitHub token provided'' w)
      else
        (let w1 = w\<lparr>requests := requests w @ [Get_user (github_token m)]\<rparr>
         in case user_reply e of
              Status_200 \<Rightarrow> (True, log_info e ''GitHub token validated successfully'' w1)
            | Status_other msg \<Rightarrow>
                (False, log_error e (''GitHub token validation failed: '' @ msg) w1)
            | Request_exception err \<Rightarrow>
                (False, log_error e (''Error validating GitHub token: '' @ err) w1)))"

definition validate_organization :: "env \<Rightarrow> monitor \<Rightarrow> world \<Rightarrow> bool \<times> world" where
  "validate_organization e m w =
     (if organization m = [] then (False, log_error e ''No organization name provided'' w)
      else
        (let w1 = w\<lparr>requests := requests w @ [Get_org (organization m) (github_token m)]\<rparr>
         in case org_reply e of
              Status_200 \<Rightarrow>
                (True, log_info e (''Organization '' @ [CHR 39] @ organization m @ [CHR 39] @
                                   '' validated successfully'') w1)
            | Status_other msg \<Rightarrow>
                (False, log_error e (''Organization validation failed: '' @ msg) w1)
            | Request_exception err \<Rightarrow>
                (False, log_error e (''Error validating organization: '' @ err) w1)))"

subsection \<open>The run\<close>

text \<open>\<^verbatim>\<open>name.replace("repo-list-", "")\<close>: every occurrence removed, from the left.\<close>

fun remove_repo_list :: "string \<Rightarrow> string" where
  "remove_repo_list [] = []"
| "remove_repo_list (c # cs) =
     (if startswith (c # cs) ''repo-list-'' then remove_repo_list (drop 9 cs)
      else c # remove_repo_list cs)"

text \<open>
  The part of \<^verbatim>\<open>run\<close> after the fetch has returned a non-empty list: previous snapshot,
  comparison, report, notification, summary. A snapshot that \<^verbatim>\<open>find_previous_list\<close> names
  is in the directory, so its \<^verbatim>\<open>open\<close> does not fail.
\<close>

definition run_report :: "env \<Rightarrow> monitor \<Rightarrow> string list \<Rightarrow> world \<Rightarrow> bool \<times> world" where
  "run_report e m current_repos w =
     (case find_previous_list e m w of
        (Some previous_list_file, w1) \<Rightarrow>
          (let previous_repos =
                 load_list (case read_file previous_list_file w1 of None \<Rightarrow> [] | Some t \<Rightarrow> t);
               previous_date = remove_repo_list previous_list_file;
               w2 = log_info e (''Using previous list from '' @ previous_date @ '' for comparison'') w1;
               ((added_repos, deleted_repos), w3) =
                 compare_repositories e m current_repos previous_repos w2;
               w4 = print_table deleted_repos ''Deleted Repositories''
                      (print_table added_repos ''Added Repositories''
                         (print_header ''Repository Changes Report'' w3));
               w5 = (if enable_slack m
                     then snd (send_slack_notification e m added_repos deleted_repos w4)
                     else w4);
               w6 = print_header ''Summary'' w5;
               previous_again =
                 load_list (case read_file previous_list_file w6 of None \<Rightarrow> [] | Some t \<Rightarrow> t);
               w7 = print_table previous_again
                      (''Previous Repository List ('' @ previous_date @ '')'') w6;
               w8 = print_table current_repos (''Current Repository List ('' @ today m @ '')'') w7
           in (True, log_info e ''Script completed successfully'' w8))
      | (None, w1) \<Rightarrow>
          (let w2 = log_info e ''No previous repository list found. This is the first run.'' w1;
               w3 = print_table current_repos ''Current Repositories''
                      (print_header ''Initial Repository Report'' w2);
               w4 = print_header ''Summary'' w3;
               w5 = print_table current_repos (''Current Repository List ('' @ today m @ '')'') w4
           in (True, log_info e ''Script completed successfully'' w5)))"

definition run :: "env \<Rightarrow> monitor \<Rightarrow> world \<Rightarrow> (bool \<times> world) option" where
  "run e m w =
     (if organization m = []
      then Some (False, log_error e ''Organization name is not set. Use --org to set it.'' w)
      else
        (let (token_ok, w1) = (if github_token m \<noteq> [] then validate_token e m w else (True, w))
         in if \<not> token_ok
            then Some (False,
                   log_error e ''Invalid GitHub token. Please check your token and try again.'' w1)
            else
              (let (org_ok, w2) = validate_organization e m w1
               in if \<not> org_ok
                  then Some (False,
                         log_error e (''Invalid organization: '' @ organization m @
                                      ''. Please check the name and try again.'') w2)
                  else
                    (let w3 = print_header ''GitHub Repository Monitor'' w2;
                         w4 = log_info e (''Starting repository monitoring for '' @ organization m) w3;
                         w5 = backup_files e m w4
                     in case fetch_repositories e m w5 of
                          None \<Rightarrow> None
                        | Some (current_repos, w6) \<Rightarrow>
                            if current_repos = []
                            then Some (False, log_error e ''Failed to fetch repositories'' w6)
                            else Some (run_report e m current_repos w6)))))"

subsection \<open>The command line\<close>

text \<open>
  The parsed arguments. The options with a value are \<open>None\<close> when absent; the flags are
  \<^verbatim>\<open>store_true\<close> actions, so \<^verbatim>\<open>False\<close> when absent.
\<close>

record args =
  arg_organization :: "string option"
  arg_github_token :: "string option"
  arg_slack_webhook_url :: "string option"
  arg_enable_slack :: bool
  arg_show_config :: bool
  arg_dry_run :: bool

text \<open>Truth of an optional string: given and not empty.\<close>

definition truthy :: "string option \<Rightarrow> bool" where
  "truthy v = (case v of None \<Rightarrow> False | Some s \<Rightarrow> s \<noteq> [])"

text \<open>
  \<^verbatim>\<open>main\<close> as the \<^verbatim>\<open>__main__\<close> block runs it (\<^verbatim>\<open>sys.exit(main())\<close> under its handlers), with
  the exit code of the process: an exception that leaves \<^verbatim>\<open>main\<close> is printed there and the
  exit code is 1. \<^verbatim>\<open>args.enable_slack\<close> is a boolean, never \<^verbatim>\<open>None\<close>, so \<^verbatim>\<open>update_config\<close>
  always receives it.
\<close>

definition main :: "env \<Rightarrow> args \<Rightarrow> world \<Rightarrow> (nat \<times> world) option" where
  "main e a w =
     (case init_monitor e w of
        Raise ex w0 \<Rightarrow> Some (1, emit (Print_error ex) w0)
      | Return m0 w0 \<Rightarrow>
          (case (if truthy (arg_organization a) \<or> truthy (arg_github_token a) \<or>
                    truthy (arg_slack_webhook_url a) \<or> arg_enable_slack a
                 then update_config e m0 (arg_organization a) (arg_github_token a)
                        (arg_slack_webhook_url a) (Some (arg_enable_slack a)) w0
                 else Return m0 w0) of
             Raise ex w1 \<Rightarrow> Some (1, emit (Print_error ex) w1)
           | Return m w1 \<Rightarrow>
               if arg_show_config a then Some (0, show_config m w1)
               else if organization m = [] then
                 Some (1, show_config m
                            (emit (Rich (''[red]Error:[/red] Organization name is required. '' @
                                         ''Use --org to set it or check the configuration.'')) w1))
               else if \<not> arg_dry_run a then
                 (case run e m w1 of
                    None \<Rightarrow> None
                  | Some (success, w2) \<Rightarrow> Some (if success then 0 else 1, w2))
               else
                 Some (0, show_config m
                            (emit (Rich ''[yellow]Dry run mode:[/yellow] No changes will be made.'')
                               w1))))"

subsection \<open>Notions used to state the properties\<close>

text \<open>
  What the three attempts at a page come to, and how many of them are made: the first
  body that arrives, or the text of the third failure.
\<close>

definition page_outcome :: "env \<Rightarrow> nat \<Rightarrow> string + body" where
  "page_outcome e page =
     (case repos_reply e page 0 of
        Resp b \<Rightarrow> Inr b
      | Failed _ \<Rightarrow>
          (case repos_reply e page 1 of
             Resp b \<Rightarrow> Inr b
           | Failed _ \<Rightarrow>
               (case repos_reply e page 2 of Resp b \<Rightarrow> Inr b | Failed err \<Rightarrow> Inl err)))"

definition attempts_made :: "env \<Rightarrow> nat \<Rightarrow> nat" where
  "attempts_made e page =
     (case repos_reply e page 0 of
        Resp _ \<Rightarrow> 1
      | Failed _ \<Rightarrow> (case repos_reply e page 1 of Resp _ \<Rightarrow> 2 | Failed _ \<Rightarrow> 3))"

text \<open>The listing requests that fetching the given pages, in this order, sends.\<close>

definition page_requests :: "env \<Rightarrow> monitor \<Rightarrow> nat list \<Rightarrow> request list" where
  "page_requests e m pages =
     concat (map (\<lambda>p. replicate (attempts_made e p)
                         (Get_repos (organization m) (github_token m) ''all'' 100 p)) pages)"

text \<open>
  A page on which the loop stops, with the names it contributes: an exception, a body
  that is not JSON, not a list or an empty list, a list with an element without a name
  (all of them contribute nothing), or a list of fewer than 100 names.
\<close>

definition final_page :: "string + body \<Rightarrow> string list \<Rightarrow> bool" where
  "final_page r names =
     (case r of
        Inl _ \<Rightarrow> names = []
      | Inr (Bad_json _) \<Rightarrow> names = []
      | Inr Not_a_list \<Rightarrow> names = []
      | Inr (Repos repos_data) \<Rightarrow>
          if repos_data = [] \<or> None \<in> set repos_data then names = []
          else names = map the repos_data \<and> length repos_data < 100)"


text \<open>
  The checks of \<^verbatim>\<open>run\<close> before the fetch (organization set, token valid if there is
  one, organization valid), and the state in which the fetch starts when they pass:
  after the validation calls, the banner, the start message and the backup.
\<close>

definition after_validation :: "env \<Rightarrow> monitor \<Rightarrow> world \<Rightarrow> world" where
  "after_validation e m w =
     snd (validate_organization e m
            (if github_token m \<noteq> [] then snd (validate_token e m w) else w))"

definition validated :: "env \<Rightarrow> monitor \<Rightarrow> world \<Rightarrow> bool" where
  "validated e m w =
     (organization m \<noteq> [] \<and>
      (github_token m = [] \<or> fst (validate_token e m w)) \<and>
      fst (validate_organization e m
             (if github_token m \<noteq> [] then snd (validate_token e m w) else w)))"

definition before_fetch :: "env \<Rightarrow> monitor \<Rightarrow> world \<Rightarrow> world" where
  "before_fetch e m w =
     backup_files e m
       (log_info e (''Starting repository monitoring for '' @ organization m)
          (print_header ''GitHub Repository Monitor'' (after_validation e m w)))"

text \<open>Whether the command line carries a configuration option.\<close>

definition config_flags :: "args \<Rightarrow> bool" where
  "config_flags a =
     (truthy (arg_organization a) \<or> truthy (arg_github_token a) \<or>
      truthy (arg_slack_webhook_url a) \<or> arg_enable_slack a)"

text \<open>
  The monitor object and the state with which \<^verbatim>\<open>main\<close> goes on after the constructor and
  the update of the configuration from the command line.
\<close>

definition configured :: "env \<Rightarrow> args \<Rightarrow> world \<Rightarrow> monitor result" where
  "configured e a w =
     (case init_monitor e w of
        Raise ex w0 \<Rightarrow> Raise ex w0
      | Return m0 w0 \<Rightarrow>
          if config_flags a
          then update_config e m0 (arg_organization a) (arg_github_token a)
                 (arg_slack_webhook_url a) (Some (arg_enable_slack a)) w0
          else Return m0 w0)"

text \<open>
  The text of the log file, and the line that \<^verbatim>\<open>log\<close> appends to it for a level and a
  message.
\<close>

definition log_text :: "world \<Rightarrow> string" where
  "log_text w = (case read_file log_file w of None \<Rightarrow> [] | Some t \<Rightarrow> t)"

definition log_line :: "env \<Rightarrow> string \<Rightarrow> string \<Rightarrow> string" where
  "log_line e level message = ''['' @ timestamp e @ ''] ['' @ level @ ''] '' @ message @ [LF]"

text \<open>
  The files whose name satisfies \<open>P\<close>, as the directory holds them: in its order, with
  their modification times and their texts. The names that \<^verbatim>\<open>find_previous_list\<close> looks
  for are those of the snapshots of other days.
\<close>

definition kept :: "(string \<Rightarrow> bool) \<Rightarrow> world \<Rightarrow> (string \<times> nat \<times> string) list" where
  "kept P w = filter (\<lambda>p. P (fst p)) (files w)"

definition is_previous :: "monitor \<Rightarrow> string \<Rightarrow> bool" where
  "is_previous m f = (startswith f ''repo-list-'' \<and> f \<noteq> repo_list_file m)"

subsection \<open>A worked scenario\<close>

text \<open>
  The organization \<open>acme\<close>, configured with a token and a webhook, on 2 May 2024, in an
  empty working directory. The configuration file is the one \<^verbatim>\<open>ConfigParser\<close> writes for
  these settings, and reading it gives them back. \<open>numbered stem k\<close> are \<open>k\<close> distinct names; the server of
  \<open>acme_env sizes\<close> answers page \<open>p\<close> at once with a list of as many names as the
  \<open>p\<close>-th entry of \<open>sizes\<close> says, and pages beyond with the empty list.
\<close>

definition numbered :: "string \<Rightarrow> nat \<Rightarrow> string list" where
  "numbered stem k = map (\<lambda>i. stem @ str_nat i) [0..<k]"

definition acme_page :: "nat list \<Rightarrow> nat \<Rightarrow> string list" where
  "acme_page sizes p =
     (if 1 \<le> p \<and> p \<le> length sizes
      then numbered (''acme/page'' @ str_nat p @ ''-repo'') (sizes ! (p - 1)) else [])"

definition acme_parser :: parser_state where
  "acme_parser =
     \<lparr>defaults = [],
      sections =
        [(''Settings'',
          [(''organization'', ''acme''),
           (''github_token'', ''ghp_0123456789abcd''),
           (''slack_webhook_url'', ''https://hooks.slack.com/services/T0/B0/XXXXXXXX''),
           (''enable_slack'', ''True'')])]\<rparr>"

definition acme_env :: "nat list \<Rightarrow> env" where
  "acme_env sizes =
     \<lparr>home = ''/home/dev'', date_today = ''2024-05-02'', timestamp = ''2024-05-02 09:00:00'',
      mtime_now = 7, user_reply = Status_200, org_reply = Status_200,
      repos_reply = (\<lambda>page attempt. Resp (Repos (map Some (acme_page sizes page)))),
      webhook_reply =
        Post_response 200 ''OK'' ''https://hooks.slack.com/services/T0/B0/XXXXXXXX'',
      parse_ini =
        (\<lambda>txt. if txt = ini_write acme_parser then Inr acme_parser
                else Inl ''File contains no section headers.'')\<rparr>"

text \<open>The same server, except that every attempt at page 2 fails.\<close>

definition flaky_env :: env where
  "flaky_env =
     (acme_env [100])\<lparr>repos_reply :=
        (\<lambda>page attempt. if page = 2 then Failed ''503 Server Error''
                         else Resp (Repos (map Some (acme_page [100] page))))\<rparr>"

definition acme_settings :: settings where
  "acme_settings =
     \<lparr>organization = ''acme'', github_token = ''ghp_0123456789abcd'',
      slack_webhook_url = ''https://hooks.slack.com/services/T0/B0/XXXXXXXX'',
      enable_slack = True\<rparr>"

definition acme_monitor :: monitor where
  "acme_monitor =
     \<lparr>organization = ''acme'', github_token = ''ghp_0123456789abcd'',
      slack_webhook_url = ''https://hooks.slack.com/services/T0/B0/XXXXXXXX'',
      enable_slack = True, today = ''2024-05-02'',
      config_file = ''/home/dev/.config/github-monitor/config.ini'',
      config = acme_parser\<rparr>"

definition acme_world :: world where
  "acme_world =
     \<lparr>files = [], config_text = Some (ini_write acme_parser), console = [], requests = [],
      slept = 0\<rparr>"

definition no_args :: args where
  "no_args =
     \<lparr>arg_organization = None, arg_github_token = None, arg_slack_webhook_url = None,
      arg_enable_slack = False, arg_show_config = False, arg_dry_run = False\<rparr>"

definition dry_run_args :: args where
  "dry_run_args = no_args\<lparr>arg_dry_run := True\<rparr>"

text \<open>
  The end-to-end scenario of the specification: yesterday's snapshot holds \<open>acme/a\<close>,
  \<open>acme/b\<close> and \<open>acme/c\<close>, today's listing is \<open>acme/a\<close>, \<open>acme/c\<close> and \<open>acme/d\<close>. The
  webhook answers the notification with an error.
\<close>

definition end_to_end_env :: env where
  "end_to_end_env =
     (acme_env [])\<lparr>repos_reply :=
        (\<lambda>page attempt. Resp (Repos [Some ''acme/a'', Some ''acme/c'', Some ''acme/d''])),
        webhook_reply :=
          Post_response 500 ''Internal Server Error''
            ''https://hooks.slack.com/services/T0/B0/XXXXXXXX''\<rparr>"

definition end_to_end_world :: world where
  "end_to_end_world =
     acme_world\<lparr>files :=
       [(''repo-list-2024-05-01'', 3, snapshot_text [''acme/a'', ''acme/b'', ''acme/c''])]\<rparr>"

text \<open>The same scenario with a webhook that answers 304 Not Modified.\<close>

definition not_modified_env :: env where
  "not_modified_env =
     end_to_end_env\<lparr>webhook_reply :=
       Post_response 304 ''Not Modified'' ''https://hooks.slack.com/services/T0/B0/XXXXXXXX''\<rparr>"

section \<open>Properties\<close>

subsection \<open>The differ\<close>

lemma py_in_set: "py_in x xs = (x \<in> set xs)"
  by (induction xs) auto

lemma not_in_comprehension_filter:
  "not_in_comprehension xs other = filter (\<lambda>repo. repo \<notin> set other) xs"
  by (induction xs) (simp_all add: py_in_set)

lemma fst_compare_repositories:
  "fst (compare_repositories e m current previous w) =
     (added_repos_of current previous, deleted_repos_of current previous)"
  by (simp add: compare_repositories_def Let_def)

text \<open>
  C3. For every pair of lists, \<^verbatim>\<open>compare_repositories\<close> returns as added the identifiers of
  the current list that are not in the previous one, in the order of the current list, and
  as deleted the identifiers of the previous list that are not in the current one, in the
  order of the previous list. Membership is equality of strings.
\<close>

theorem compare_repositories_filter:
  "fst (compare_repositories e m current previous w) =
     (filter (\<lambda>repo. repo \<notin> set previous) current,
      filter (\<lambda>repo. repo \<notin> set current) previous)"
  by (simp add: fst_compare_repositories added_repos_of_def deleted_repos_of_def
      not_in_comprehension_filter)

text \<open>
  C4. Added and deleted have no identifier in common, together they are the symmetric
  difference of the two snapshots, what is added from B to A is what is deleted from A to
  B, and a snapshot compared with itself gives two empty lists.
\<close>

theorem compare_repositories_partition:
  "set (fst (fst (compare_repositories e m A B w))) \<inter>
     set (snd (fst (compare_repositories e m A B w))) = {}
   \<and> set (fst (fst (compare_repositories e m A B w))) \<union>
       set (snd (fst (compare_repositories e m A B w))) = (set A - set B) \<union> (set B - set A)
   \<and> fst (fst (compare_repositories e m A B w)) = snd (fst (compare_repositories e' m' B A w'))
   \<and> fst (compare_repositories e m A A w) = ([], [])"
  by (auto simp add: fst_compare_repositories added_repos_of_def deleted_repos_of_def
      not_in_comprehension_filter)

subsection \<open>Rendering a list\<close>

lemma console_emit: "console (emit x w) = console w @ [x]"
  by (simp add: emit_def)

lemma console_fold_emit:
  "console (fold (\<lambda>item. emit (f item)) items w) = console w @ map f items"
  by (induction items arbitrary: w) (simp_all add: console_emit)

text \<open>
  C7. What \<^verbatim>\<open>print_table\<close> prints for any list and title: the title between two borders
  and the count, then the message for no entries if the list is empty, every entry on a
  line of its own if it has 1 to 19 entries (an entry longer than 70 characters cut to 70
  and followed by three dots), and only the count with a note if it has 20 or more; then
  the closing border.
\<close>

theorem print_table_rendering:
  "console (print_table items ttl w) =
     console w @
     [Border_top, Rich (''[bold]'' @ ttl @ ''[/bold]''), Border_mid,
      Rich (''[cyan]Total count: '' @ str_nat (length items) @ ''[/cyan]'')] @
     (if items = [] then [Rich ''[yellow]No entries found[/yellow]'']
      else if length items < 20
      then map (\<lambda>item. Bullet (if length item > 70 then take 70 item @ ''...'' else item)) items
      else [Rich (''[yellow]Too many items to display ('' @ str_nat (length items) @
                  '' repositories)[/yellow]''),
            Rich ''[yellow]Results saved to file[/yellow]'']) @
     [Border_bottom]"
  by (simp add: print_table_def Let_def console_emit console_fold_emit display_item_def)

subsection \<open>Saving and loading a snapshot\<close>

lemma isspace_LF: "isspace LF"
  by (simp add: isspace_def LF_def)

lemma file_lines_item:
  "LF \<notin> set item \<Longrightarrow> CR \<notin> set item \<Longrightarrow>
   file_lines cur (item @ LF # rest) = (cur @ item @ [LF]) # file_lines [] rest"
proof (induction item arbitrary: cur)
  case Nil
  then show ?case by (simp add: LF_def CR_def)
next
  case (Cons c cs)
  have "LF \<noteq> CR" by (simp add: LF_def CR_def)
  with Cons show ?case by auto
qed

lemma file_lines_snapshot_text:
  "(\<And>item. item \<in> set items \<Longrightarrow> LF \<notin> set item \<and> CR \<notin> set item) \<Longrightarrow>
   file_lines [] (snapshot_text items) = map (\<lambda>item. item @ [LF]) items"
proof (induction items)
  case Nil
  then show ?case by (simp add: snapshot_text_def)
next
  case (Cons a items)
  have "file_lines [] (snapshot_text (a # items)) = file_lines [] (a @ LF # snapshot_text items)"
    by (simp add: snapshot_text_def)
  also have "\<dots> = (a @ [LF]) # file_lines [] (snapshot_text items)"
    using Cons.prems[of a] file_lines_item[of a "[]"] by simp
  finally show ?case using Cons by simp
qed

lemma dropWhile_length_id: "length (dropWhile P xs) = length xs \<Longrightarrow> dropWhile P xs = xs"
proof (cases xs)
  case Nil
  then show ?thesis by simp
next
  case (Cons a list)
  assume "length (dropWhile P xs) = length xs"
  with Cons length_dropWhile_le[of P list] show ?thesis by (auto split: if_splits)
qed

lemma dropWhile_id_iff: "dropWhile P xs = xs \<longleftrightarrow> xs = [] \<or> \<not> P (hd xs)"
proof (cases xs)
  case Nil
  then show ?thesis by simp
next
  case (Cons a list)
  have "dropWhile P list \<noteq> a # list"
    using length_dropWhile_le[of P list] by (metis impossible_Cons)
  with Cons show ?thesis by simp
qed

lemma strip_line:
  assumes "strip item = item"
  shows "strip (item @ [LF]) = item"
proof (cases "item = []")
  case True
  then show ?thesis by (simp add: strip_def isspace_LF)
next
  case False
  have "length (strip item) \<le> length (dropWhile isspace item)"
    unfolding strip_def
    using length_dropWhile_le[of isspace "rev (dropWhile isspace item)"] by simp
  with assms have "length item \<le> length (dropWhile isspace item)" by simp
  then have a: "dropWhile isspace item = item"
    using length_dropWhile_le[of isspace item] by (intro dropWhile_length_id) simp
  then have b: "dropWhile isspace (rev item) = rev item"
    using assms unfolding strip_def by (metis rev_rev_ident)
  have nsp: "\<not> isspace (hd item)" using a False by (simp add: dropWhile_id_iff)
  have "dropWhile isspace (item @ [LF]) = item @ [LF]"
    using nsp False by (cases item) auto
  then show ?thesis unfolding strip_def using b by (simp add: isspace_LF)
qed

lemma load_snapshot_text:
  assumes "\<And>item. item \<in> set items \<Longrightarrow> LF \<notin> set item \<and> CR \<notin> set item \<and> strip item = item"
  shows "load_list (snapshot_text items) = filter (\<lambda>item. item \<noteq> []) items"
proof -
  have fl: "file_lines [] (snapshot_text items) = map (\<lambda>item. item @ [LF]) items"
    using assms by (intro file_lines_snapshot_text) blast
  show ?thesis unfolding load_list_def fl using assms
    by (induction items) (simp_all add: strip_line)
qed

lemma map_of_put_same: "map_of (put name v fs) name = Some v"
  by (induction fs) auto

lemma map_of_put_other: "other \<noteq> name \<Longrightarrow> map_of (put name v fs) other = map_of fs other"
  by (induction fs) auto

lemma read_file_write_file: "read_file name (write_file e name txt w) = Some txt"
  by (simp add: read_file_def write_file_def map_of_put_same)

text \<open>
  C5, as the code has it. A list saved with \<^verbatim>\<open>_save_list_to_file\<close> and loaded back the way
  \<^verbatim>\<open>run\<close> loads a snapshot comes back in the same order without its empty identifiers,
  provided no identifier contains a line break (\<^verbatim>\<open>\n\<close> or \<^verbatim>\<open>\r\<close>) or starts or ends with
  whitespace.
\<close>

theorem snapshot_round_trip:
  assumes "\<forall>item \<in> set items. LF \<notin> set item \<and> CR \<notin> set item \<and> strip item = item"
  shows "map_option load_list (read_file filename (save_list_to_file e items filename w))
         = Some (filter (\<lambda>item. item \<noteq> []) items)"
  using assms by (simp add: save_list_to_file_def read_file_write_file load_snapshot_text)

theorem snapshot_round_trip_witness:
  "map_option load_list
     (read_file ''repo-list-2024-05-02''
        (save_list_to_file (acme_env []) [''acme/a'', [], ''acme/c''] ''repo-list-2024-05-02''
           acme_world))
   = Some [''acme/a'', ''acme/c'']"
proof -
  have "\<forall>item \<in> set [''acme/a'', [], ''acme/c''].
          LF \<notin> set item \<and> CR \<notin> set item \<and> strip item = item"
    by (simp add: LF_def CR_def strip_def isspace_def)
  from snapshot_round_trip[OF this] show ?thesis by simp
qed

text \<open>
  Without the proviso the list does not come back: the loader trims the space in front of
  the second identifier.
\<close>

theorem snapshot_round_trip_counterexample:
  "map_option load_list
     (read_file ''repo-list-2024-05-02''
        (save_list_to_file (acme_env []) [''acme/a'', '' acme/b''] ''repo-list-2024-05-02''
           acme_world))
   \<noteq> Some [''acme/a'', '' acme/b'']"
  by (simp add: save_list_to_file_def read_file_write_file load_list_def snapshot_text_def
      strip_def isspace_def LF_def CR_def)

subsection \<open>Fetching the pages\<close>

lemma requests_write_file [simp]: "requests (write_file e name txt w) = requests w"
  by (simp add: write_file_def)

lemma requests_append_file [simp]: "requests (append_file e name txt w) = requests w"
  by (simp add: append_file_def)

lemma requests_emit [simp]: "requests (emit x w) = requests w"
  by (simp add: emit_def)

lemma requests_log [simp]: "requests (log e level message w) = requests w"
  by (simp add: log_def Let_def)

lemma requests_log_info [simp]: "requests (log_info e message w) = requests w"
  by (simp add: log_info_def)

lemma requests_log_warning [simp]: "requests (log_warning e message w) = requests w"
  by (simp add: log_warning_def)

lemma requests_log_error [simp]: "requests (log_error e message w) = requests w"
  by (simp add: log_error_def)

lemma requests_save_list_to_file [simp]:
  "requests (save_list_to_file e items name w) = requests w"
  by (simp add: save_list_to_file_def)

lemma read_file_write_file_other:
  "other \<noteq> name \<Longrightarrow> read_file other (write_file e name txt w) = read_file other w"
  by (simp add: read_file_def write_file_def map_of_put_other)

lemma read_file_emit [simp]: "read_file name (emit x w) = read_file name w"
  by (simp add: read_file_def emit_def)

lemma read_file_log_other:
  "name \<noteq> log_file \<Longrightarrow> read_file name (log e level message w) = read_file name w"
  by (simp add: log_def Let_def append_file_def read_file_write_file_other)

lemma repo_list_file_not_log: "repo_list_file m \<noteq> log_file"
  by (simp add: repo_list_file_def log_file_def)

lemma fst_request_with_retry:
  "fst (request_with_retry e m page [0, 1, 2] w) = page_outcome e page"
  by (simp add: request_with_retry.simps page_outcome_def Let_def split: reply.splits)

lemma requests_request_with_retry:
  "requests (snd (request_with_retry e m page [0, 1, 2] w)) =
     requests w @ page_requests e m [page]"
  by (simp add: request_with_retry.simps attempts_made_def page_requests_def Let_def
      eval_nat_numeral split: reply.splits)

lemma fetch_pages_final:
  assumes "final_page (page_outcome e page) names"
  shows "\<exists>w'. fetch_pages e m page acc tot w = Some (acc @ names, tot + length names, w')
              \<and> requests w' = requests w @ page_requests e m [page]"
proof -
  obtain r w1 where rr: "request_with_retry e m page [0, 1, 2] w = (r, w1)"
    by (cases "request_with_retry e m page [0, 1, 2] w")
  from rr fst_request_with_retry[of e m page w] have po: "page_outcome e page = r" by simp
  from rr requests_request_with_retry[of e m page w]
  have q: "requests w1 = requests w @ page_requests e m [page]" by simp
  from assms po have fin: "final_page r names" by simp
  show ?thesis
  proof (cases r)
    case (Inl err)
    with fin have "names = []" by (simp add: final_page_def)
    with Inl rr q show ?thesis
      by (subst fetch_pages.simps) simp
  next
    case (Inr b)
    show ?thesis
    proof (cases b)
      case (Bad_json err)
      with Inr fin have "names = []" by (simp add: final_page_def)
      with Bad_json Inr rr q show ?thesis
        by (subst fetch_pages.simps) simp
    next
      case Not_a_list
      with Inr fin have "names = []" by (simp add: final_page_def)
      with Not_a_list Inr rr q show ?thesis
        by (subst fetch_pages.simps) simp
    next
      case (Repos repos_data)
      show ?thesis
      proof (cases "repos_data = [] \<or> None \<in> set repos_data")
        case True
        with Repos Inr fin have "names = []" by (simp add: final_page_def)
        with True Repos Inr rr q show ?thesis
          by (subst fetch_pages.simps) auto
      next
        case False
        with Repos Inr fin have "names = map the repos_data" "length repos_data < 100"
          by (simp_all add: final_page_def)
        with False Repos Inr rr q show ?thesis
          by (subst fetch_pages.simps) (simp add: Let_def)
      qed
    qed
  qed
qed

lemma fetch_pages_names:
  assumes "page_outcome e page = Inr (Repos (map Some names))" and "names \<noteq> []"
  shows "fetch_pages e m page acc tot w =
           (let w2 = log_info e
                       (''Retrieved '' @ str_nat (length names) @ '' repositories on page '' @
                        str_nat page @ '' (total: '' @ str_nat (tot + length names) @ '')'')
                       (snd (request_with_retry e m page [0, 1, 2] w))
            in if length names < 100 then Some (acc @ names, tot + length names, w2)
               else fetch_pages e m (page + 1) (acc @ names) (tot + length names) w2)"
proof -
  obtain r w1 where rr: "request_with_retry e m page [0, 1, 2] w = (r, w1)"
    by (cases "request_with_retry e m page [0, 1, 2] w")
  with fst_request_with_retry[of e m page w] assms(1) have r: "r = Inr (Repos (map Some names))"
    by simp
  have "map the (map Some names) = names" by (simp add: comp_def)
  with rr r assms(2) show ?thesis
    by (subst fetch_pages.simps) (auto simp: Let_def comp_def)
qed

lemma fetch_pages_full_then_final:
  assumes "\<And>p. page \<le> p \<Longrightarrow> p < page + n \<Longrightarrow>
             page_outcome e p = Inr (Repos (map Some (names p))) \<and> 100 \<le> length (names p)"
      and "final_page (page_outcome e (page + n)) (names (page + n))"
  shows "\<exists>w'. fetch_pages e m page acc tot w =
                Some (acc @ concat (map names [page..<page + n + 1]),
                      tot + length (concat (map names [page..<page + n + 1])), w')
              \<and> requests w' = requests w @ page_requests e m [page..<page + n + 1]"
  using assms
proof (induction n arbitrary: page acc tot w)
  case 0
  from fetch_pages_final[of e page "names page" m acc tot w] 0 show ?case by simp
next
  case (Suc n)
  have full: "page_outcome e page = Inr (Repos (map Some (names page)))"
    and len: "100 \<le> length (names page)"
    using Suc.prems(1)[of page] by simp_all
  from len have ne: "names page \<noteq> []" by auto
  define w2 where "w2 = log_info e
                       (''Retrieved '' @ str_nat (length (names page)) @ '' repositories on page '' @
                        str_nat page @ '' (total: '' @ str_nat (tot + length (names page)) @ '')'')
                       (snd (request_with_retry e m page [0, 1, 2] w))"
  have step: "fetch_pages e m page acc tot w =
      fetch_pages e m (Suc page) (acc @ names page) (tot + length (names page)) w2"
    using fetch_pages_names[OF full ne, of m acc tot w] len by (simp add: Let_def w2_def)
  have "\<exists>w'. fetch_pages e m (Suc page) (acc @ names page) (tot + length (names page)) w2 =
                Some ((acc @ names page) @ concat (map names [Suc page..<Suc page + n + 1]),
                      (tot + length (names page)) + length (concat (map names [Suc page..<Suc page + n + 1])), w')
              \<and> requests w' = requests w2 @ page_requests e m [Suc page..<Suc page + n + 1]"
  proof (rule Suc.IH)
    fix p assume "Suc page \<le> p" "p < Suc page + n"
    then show "page_outcome e p = Inr (Repos (map Some (names p))) \<and> 100 \<le> length (names p)"
      using Suc.prems(1)[of p] by simp
  next
    show "final_page (page_outcome e (Suc page + n)) (names (Suc page + n))"
      using Suc.prems(2) by simp
  qed
  then obtain w' where
    r: "fetch_pages e m (Suc page) (acc @ names page) (tot + length (names page)) w2 =
                Some ((acc @ names page) @ concat (map names [Suc page..<Suc page + n + 1]),
                      (tot + length (names page)) + length (concat (map names [Suc page..<Suc page + n + 1])), w')"
    and q: "requests w' = requests w2 @ page_requests e m [Suc page..<Suc page + n + 1]"
    by blast
  have up: "[page..<page + Suc n + 1] = page # [Suc page..<Suc page + n + 1]"
    by (simp add: upt_conv_Cons)
  have rq: "requests w2 = requests w @ page_requests e m [page]"
    by (simp add: w2_def requests_request_with_retry del: One_nat_def)
  show ?case
    unfolding step r up using q rq by (simp add: page_requests_def)
qed

lemma fetch_repositories_full_then_final:
  assumes org: "organization m \<noteq> []"
      and full: "\<And>p. 1 \<le> p \<Longrightarrow> p \<le> n \<Longrightarrow>
             page_outcome e p = Inr (Repos (map Some (names p))) \<and> 100 \<le> length (names p)"
      and final: "final_page (page_outcome e (Suc n)) (names (Suc n))"
  shows "\<exists>w'. fetch_repositories e m w = Some (sort (concat (map names [1..<n + 2])), w')
              \<and> requests w' = requests w @ page_requests e m [1..<n + 2]
              \<and> read_file (repo_list_file m) w' =
                  Some (snapshot_text (sort (concat (map names [1..<n + 2]))))"
proof -
  define w2 where "w2 = (if github_token m = []
                      then log_warning e ''GitHub token not provided. API rate limits may apply.''
                             (log_info e (''Fetching repositories for '' @ organization m) w)
                      else log_info e (''Fetching repositories for '' @ organization m) w)"
  have "\<exists>w'. fetch_pages e m 1 [] 0 w2 =
                Some ([] @ concat (map names [1..<1 + n + 1]),
                      0 + length (concat (map names [1..<1 + n + 1])), w')
              \<and> requests w' = requests w2 @ page_requests e m [1..<1 + n + 1]"
  proof (rule fetch_pages_full_then_final)
    fix p :: nat assume "1 \<le> p" "p < 1 + n"
    then show "page_outcome e p = Inr (Repos (map Some (names p))) \<and> 100 \<le> length (names p)"
      using full[of p] by simp
  next
    show "final_page (page_outcome e (1 + n)) (names (1 + n))" using final by simp
  qed
  then obtain w3 where
    fp: "fetch_pages e m 1 [] 0 w2 =
           Some (concat (map names [1..<n + 2]), length (concat (map names [1..<n + 2])), w3)"
    and q: "requests w3 = requests w2 @ page_requests e m [1..<n + 2]"
    by auto
  have q2: "requests w2 = requests w" by (simp add: w2_def)
  have eq: "fetch_repositories e m w =
      Some (sort (concat (map names [1..<n + 2])),
            log_info e (''Successfully fetched '' @
                        str_nat (length (concat (map names [1..<n + 2]))) @ '' repositories'')
              (save_list_to_file e (sort (concat (map names [1..<n + 2]))) (repo_list_file m) w3))"
    using org fp unfolding fetch_repositories_def Let_def w2_def[symmetric]
    by (simp del: One_nat_def)
  show ?thesis
    unfolding eq using q q2
    by (simp add: log_info_def read_file_log_other repo_list_file_not_log save_list_to_file_def
        read_file_write_file del: One_nat_def)
qed





lemma page_outcome_acme_env:
  "page_outcome (acme_env sizes) p = Inr (Repos (map Some (acme_page sizes p)))"
  by (simp add: page_outcome_def acme_env_def)


lemma length_acme_page:
  "length (acme_page sizes p) = (if 1 \<le> p \<and> p \<le> length sizes then sizes ! (p - 1) else 0)"
  by (simp add: acme_page_def numbered_def)

lemma acme_monitor_fields:
  "organization acme_monitor = ''acme''" "github_token acme_monitor = ''ghp_0123456789abcd''"
  "slack_webhook_url acme_monitor = ''https://hooks.slack.com/services/T0/B0/XXXXXXXX''"
  "enable_slack acme_monitor" "today acme_monitor = ''2024-05-02''"
  by (simp_all add: acme_monitor_def)




subsection \<open>The run and the exit code\<close>

lemma main_configured:
  "main e a w =
     (case configured e a w of
        Raise ex w1 \<Rightarrow> Some (1, emit (Print_error ex) w1)
      | Return m w1 \<Rightarrow>
          if arg_show_config a then Some (0, show_config m w1)
          else if organization m = [] then
            Some (1, show_config m
                      (emit (Rich (''[red]Error:[/red] Organization name is required. '' @
                                   ''Use --org to set it or check the configuration.'')) w1))
          else if \<not> arg_dry_run a then
            (case run e m w1 of
               None \<Rightarrow> None
             | Some (success, w2) \<Rightarrow> Some (if success then 0 else 1, w2))
          else
            Some (0, show_config m
                      (emit (Rich ''[yellow]Dry run mode:[/yellow] No changes will be made.'') w1)))"
  by (simp add: main_def configured_def config_flags_def split: result.splits)

lemma run_validated:
  assumes "validated e m w"
  shows "run e m w =
     (case fetch_repositories e m (before_fetch e m w) of
        None \<Rightarrow> None
      | Some (current_repos, w6) \<Rightarrow>
          if current_repos = []
          then Some (False, log_error e ''Failed to fetch repositories'' w6)
          else Some (run_report e m current_repos w6))"
proof -
  obtain token_ok w1 where
    t: "(if github_token m \<noteq> [] then validate_token e m w else (True, w)) = (token_ok, w1)"
    by (cases "if github_token m \<noteq> [] then validate_token e m w else (True, w)")
  obtain org_ok w2 where o: "validate_organization e m w1 = (org_ok, w2)"
    by (cases "validate_organization e m w1")
  have w1: "w1 = (if github_token m \<noteq> [] then snd (validate_token e m w) else w)"
    using t by (auto split: if_splits)
  have tok: "token_ok" using t assms by (auto simp: validated_def split: if_splits)
  have org: "org_ok" using o assms w1 by (simp add: validated_def)
  have w2: "w2 = after_validation e m w" using o w1 by (simp add: after_validation_def)
  have ne: "organization m \<noteq> []" using assms by (simp add: validated_def)
  show ?thesis
    unfolding run_def t using ne tok org o w2
    by (simp add: before_fetch_def Let_def)
qed

lemma fst_run_report: "fst (run_report e m current_repos w) = True"
  by (simp add: run_report_def Let_def split: prod.splits option.splits)

lemma main_exit_code:
  assumes "configured e a w = Return m w1" and "\<not> arg_show_config a" and "\<not> arg_dry_run a"
    and "organization m \<noteq> []"
  shows "map_option fst (main e a w) = map_option (\<lambda>r. if fst r then 0 else 1) (run e m w1)"
  using assms by (simp add: main_configured split: option.splits prod.splits)

text \<open>
  C10. When the checks of \<^verbatim>\<open>run\<close> pass and the fetch returns the empty list, \<^verbatim>\<open>run\<close> returns
  \<^verbatim>\<open>False\<close>, with nothing done after the fetch but the error message "Failed to fetch
  repositories" (no comparison, no report, no notification), and \<^verbatim>\<open>main\<close> exits with code 1.
  The scenario is an organization without repositories: the first page is the empty list.
\<close>

theorem empty_fetch_fails:
  assumes "validated e m w"
    and "map_option fst (fetch_repositories e m (before_fetch e m w)) = Some []"
  shows "run e m w =
           map_option (\<lambda>r. (False, log_error e ''Failed to fetch repositories'' (snd r)))
             (fetch_repositories e m (before_fetch e m w))
         \<and> map_option fst (run e m w) = Some False
         \<and> (configured e a w0 = Return m w \<and> \<not> arg_show_config a \<and> \<not> arg_dry_run a \<longrightarrow>
              map_option fst (main e a w0) = Some 1)"
proof -
  from assms(2) obtain w6 where f: "fetch_repositories e m (before_fetch e m w) = Some ([], w6)"
    by auto
  have r: "run e m w = Some (False, log_error e ''Failed to fetch repositories'' w6)"
    using run_validated[OF assms(1)] f by simp
  have org: "organization m \<noteq> []" using assms(1) by (simp add: validated_def)
  have "map_option fst (main e a w0) = Some 1"
    if "configured e a w0 = Return m w" "\<not> arg_show_config a" "\<not> arg_dry_run a"
    using main_exit_code[OF that org] r by simp
  with r f show ?thesis by simp
qed


lemma validated_200:
  "user_reply e = Status_200 \<Longrightarrow> org_reply e = Status_200 \<Longrightarrow> organization m \<noteq> [] \<Longrightarrow>
   validated e m w"
  by (simp add: validated_def validate_token_def validate_organization_def Let_def)

lemma interpolate_some_plain:
  "CHR ''%'' \<notin> set v \<Longrightarrow> interpolate_some (Suc k) d v = Inr v"
  by (induction v rule: induct_list012) auto

lemma config_get_plain:
  assumes "has_section p name" and "unify_values p name opt = Some v" and "CHR ''%'' \<notin> set v"
  shows "config_get p name opt fallback = Inr v"
  using assms by (simp add: config_get_def interpolate_some_plain eval_nat_numeral)

lemma acme_parser_values:
  "has_section acme_parser ''Settings''"
  "config_get acme_parser ''Settings'' ''organization'' [] = Inr ''acme''"
  "config_get acme_parser ''Settings'' ''github_token'' [] = Inr ''ghp_0123456789abcd''"
  "config_get acme_parser ''Settings'' ''slack_webhook_url'' [] =
     Inr ''https://hooks.slack.com/services/T0/B0/XXXXXXXX''"
  "config_getboolean acme_parser ''Settings'' ''enable_slack'' False = Inr True"
proof -
  show s: "has_section acme_parser ''Settings''"
    by (simp add: has_section_def acme_parser_def)
  show "config_get acme_parser ''Settings'' ''organization'' [] = Inr ''acme''"
    by (rule config_get_plain[OF s]) (simp_all add: unify_values_def acme_parser_def)
  show "config_get acme_parser ''Settings'' ''github_token'' [] = Inr ''ghp_0123456789abcd''"
    by (rule config_get_plain[OF s]) (simp_all add: unify_values_def acme_parser_def)
  show "config_get acme_parser ''Settings'' ''slack_webhook_url'' [] =
     Inr ''https://hooks.slack.com/services/T0/B0/XXXXXXXX''"
    by (rule config_get_plain[OF s]) (simp_all add: unify_values_def acme_parser_def)
  have "interpolate_some 10 (unify_values acme_parser ''Settings'') ''True'' = Inr ''True''"
    by (simp add: interpolate_some_plain eval_nat_numeral)
  moreover have "lower ''True'' = ''true''"
    by code_simp
  moreover have "unify_values acme_parser ''Settings'' ''enable_slack'' = Some ''True''"
    by (simp add: unify_values_def acme_parser_def)
  ultimately show "config_getboolean acme_parser ''Settings'' ''enable_slack'' False = Inr True"
    using s by (simp add: config_getboolean_def)
qed

lemma init_monitor_acme:
  assumes "home e = ''/home/dev''" and "date_today e = ''2024-05-02''"
    and "parse_ini e (ini_write acme_parser) = Inr acme_parser"
    and "config_text w = Some (ini_write acme_parser)"
  shows "init_monitor e w = Return acme_monitor (setup_logging e w)"
  using assms
  by (simp add: init_monitor_def load_config_def acme_parser_values acme_monitor_def)

lemma configured_acme:
  assumes "home e = ''/home/dev''" and "date_today e = ''2024-05-02''"
    and "parse_ini e (ini_write acme_parser) = Inr acme_parser"
  shows "configured e no_args acme_world = Return acme_monitor (setup_logging e acme_world)"
proof -
  have "config_text acme_world = Some (ini_write acme_parser)" by (simp add: acme_world_def)
  from init_monitor_acme[OF assms this] show ?thesis
    by (simp add: configured_def config_flags_def no_args_def truthy_def)
qed

theorem empty_fetch_fails_witness:
  "map_option fst (run (acme_env []) acme_monitor (setup_logging (acme_env []) acme_world))
     = Some False
   \<and> map_option fst (main (acme_env []) no_args acme_world) = Some 1"
proof -
  define w where "w = setup_logging (acme_env []) acme_world"
  have org: "organization acme_monitor \<noteq> []" by (simp add: acme_monitor_def)
  have v: "validated (acme_env []) acme_monitor w"
    by (rule validated_200) (simp_all add: acme_env_def org)
  have "final_page (page_outcome (acme_env []) (Suc 0)) ((\<lambda>p. []) (Suc 0))"
    by (simp add: page_outcome_acme_env acme_page_def final_page_def)
  from fetch_repositories_full_then_final[of acme_monitor 0 "acme_env []" "\<lambda>p. []", OF org _ this,
      where w = "before_fetch (acme_env []) acme_monitor w"]
  have f: "map_option fst (fetch_repositories (acme_env []) acme_monitor
             (before_fetch (acme_env []) acme_monitor w)) = Some []"
    by auto
  have c: "configured (acme_env []) no_args acme_world = Return acme_monitor w"
    unfolding w_def by (rule configured_acme) (simp_all add: acme_env_def)
  have a: "\<not> arg_show_config no_args" "\<not> arg_dry_run no_args" by (simp_all add: no_args_def)
  from empty_fetch_fails[OF v f, of no_args acme_world]
  have "map_option fst (run (acme_env []) acme_monitor w) = Some False"
    and "configured (acme_env []) no_args acme_world = Return acme_monitor w \<and>
         \<not> arg_show_config no_args \<and> \<not> arg_dry_run no_args \<longrightarrow>
         map_option fst (main (acme_env []) no_args acme_world) = Some 1"
    by blast+
  with c a show ?thesis
    unfolding w_def by blast
qed

lemma page_outcome_flaky_1:
  "page_outcome flaky_env (Suc 0) = Inr (Repos (map Some (acme_page [100] (Suc 0))))"
  by (simp add: page_outcome_def flaky_env_def acme_env_def)

lemma page_outcome_flaky_2: "page_outcome flaky_env (Suc (Suc 0)) = Inl ''503 Server Error''"
  by (simp add: page_outcome_def flaky_env_def acme_env_def)

lemma flaky_fetch:
  "\<exists>w'. fetch_repositories flaky_env acme_monitor w = Some (sort (acme_page [100] 1), w')
        \<and> requests w' = requests w @ page_requests flaky_env acme_monitor [1, 2]
        \<and> read_file (repo_list_file acme_monitor) w' =
            Some (snapshot_text (sort (acme_page [100] 1)))"
proof -
  define names where "names = (\<lambda>p :: nat. if p = 1 then acme_page [100] 1 else [])"
  have org: "organization acme_monitor \<noteq> []" by (simp add: acme_monitor_def)
  have full: "\<And>p. 1 \<le> p \<Longrightarrow> p \<le> 1 \<Longrightarrow>
      page_outcome flaky_env p = Inr (Repos (map Some (names p))) \<and> 100 \<le> length (names p)"
  proof -
    fix p :: nat assume "1 \<le> p" "p \<le> 1"
    then have "p = 1" by simp
    then show "page_outcome flaky_env p = Inr (Repos (map Some (names p))) \<and> 100 \<le> length (names p)"
      by (simp add: names_def page_outcome_flaky_1 length_acme_page)
  qed
  have final: "final_page (page_outcome flaky_env (Suc 1)) (names (Suc 1))"
    by (simp add: names_def page_outcome_flaky_2 final_page_def)
  have c: "concat (map names [1..<1 + 2]) = acme_page [100] 1"
    by (simp add: names_def upt_rec)
  have u: "[1..<1 + 2] = [1, 2::nat]" by (simp add: upt_rec)
  from fetch_repositories_full_then_final[OF org full final, where w = w]
  show ?thesis unfolding c unfolding u by simp
qed

text \<open>
  C1, at a fetch whose second page fails on all three attempts after a first page of 100
  names. The claim asks for the fetch to be given up as a whole. The code keeps the first
  page: \<^verbatim>\<open>fetch_repositories\<close> returns its 100 names, writes them to the snapshot file of the
  day, and \<^verbatim>\<open>main\<close> exits with code 0. (Page 1 was requested once and page 2 three times.)
\<close>

theorem partial_fetch_is_kept:
  "map_option fst (fetch_repositories flaky_env acme_monitor acme_world)
     = Some (sort (acme_page [100] 1))
   \<and> length (sort (acme_page [100] 1)) = 100
   \<and> map_option (read_file ''repo-list-2024-05-02'' \<circ> snd)
       (fetch_repositories flaky_env acme_monitor acme_world)
     = Some (Some (snapshot_text (sort (acme_page [100] 1))))
   \<and> map_option (requests \<circ> snd) (fetch_repositories flaky_env acme_monitor acme_world)
     = Some [Get_repos ''acme'' ''ghp_0123456789abcd'' ''all'' 100 1,
             Get_repos ''acme'' ''ghp_0123456789abcd'' ''all'' 100 2,
             Get_repos ''acme'' ''ghp_0123456789abcd'' ''all'' 100 2,
             Get_repos ''acme'' ''ghp_0123456789abcd'' ''all'' 100 2]
   \<and> map_option fst (main flaky_env no_args acme_world) = Some 0"
proof -
  have pr: "page_requests flaky_env acme_monitor [Suc 0, 2] =
      [Get_repos ''acme'' ''ghp_0123456789abcd'' ''all'' 100 (Suc 0),
       Get_repos ''acme'' ''ghp_0123456789abcd'' ''all'' 100 2,
       Get_repos ''acme'' ''ghp_0123456789abcd'' ''all'' 100 2,
             Get_repos ''acme'' ''ghp_0123456789abcd'' ''all'' 100 2]"
    by (simp add: page_requests_def attempts_made_def flaky_env_def acme_env_def acme_monitor_def
        eval_nat_numeral)
  have rl: "repo_list_file acme_monitor = ''repo-list-2024-05-02''"
    by (simp add: repo_list_file_def acme_monitor_def)
  have len: "length (sort (acme_page [100] 1)) = 100" by (simp add: length_acme_page)
  from flaky_fetch[of acme_world] obtain w' where
    f: "fetch_repositories flaky_env acme_monitor acme_world = Some (sort (acme_page [100] 1), w')"
    and q: "requests w' = requests acme_world @ page_requests flaky_env acme_monitor [1, 2]"
    and s: "read_file (repo_list_file acme_monitor) w' =
            Some (snapshot_text (sort (acme_page [100] 1)))"
    by blast
  define w where "w = setup_logging flaky_env acme_world"
  have org: "organization acme_monitor \<noteq> []" by (simp add: acme_monitor_def)
  have v: "validated flaky_env acme_monitor w"
    by (rule validated_200) (simp_all add: flaky_env_def acme_env_def org)
  have c: "configured flaky_env no_args acme_world = Return acme_monitor w"
    unfolding w_def by (rule configured_acme) (simp_all add: flaky_env_def acme_env_def)
  from flaky_fetch[of "before_fetch flaky_env acme_monitor w"] obtain w6 where
    g: "fetch_repositories flaky_env acme_monitor (before_fetch flaky_env acme_monitor w)
          = Some (sort (acme_page [100] 1), w6)"
    by blast
  have ne: "sort (acme_page [100] 1) \<noteq> []"
  proof
    assume "sort (acme_page [100] 1) = []"
    then have "length (sort (acme_page [100] 1)) = 0" by (simp only: list.size)
    with len show False by linarith
  qed
  have "run flaky_env acme_monitor w = Some (run_report flaky_env acme_monitor (sort (acme_page [100] 1)) w6)"
    using run_validated[OF v] g ne by simp
  then have "map_option fst (main flaky_env no_args acme_world) = Some 0"
    using main_exit_code[OF c _ _ org] by (simp add: no_args_def fst_run_report)
  with f q s len show ?thesis
    by (simp add: pr rl acme_world_def)
qed

subsection \<open>The notification\<close>

lemma log_text_log [simp]:
  "log_text (log e level message w) = log_text w @ log_line e level message"
  by (simp add: log_text_def log_line_def log_def Let_def append_file_def read_file_write_file)

lemma log_text_log_info [simp]:
  "log_text (log_info e message w) = log_text w @ log_line e ''INFO'' message"
  by (simp add: log_info_def)

lemma log_text_log_warning [simp]:
  "log_text (log_warning e message w) = log_text w @ log_line e ''WARNING'' message"
  by (simp add: log_warning_def)

lemma log_text_log_error [simp]:
  "log_text (log_error e message w) = log_text w @ log_line e ''ERROR'' message"
  by (simp add: log_error_def)

lemma files_emit [simp]: "files (emit x w) = files w"
  by (simp add: emit_def)

lemma files_fold_emit [simp]: "files (fold (\<lambda>item. emit (f item)) items w) = files w"
  by (induction items arbitrary: w) simp_all

lemma requests_fold_emit [simp]: "requests (fold (\<lambda>item. emit (f item)) items w) = requests w"
  by (induction items arbitrary: w) simp_all

lemma files_print_header [simp]: "files (print_header ttl w) = files w"
  by (simp add: print_header_def Let_def)

lemma requests_print_header [simp]: "requests (print_header ttl w) = requests w"
  by (simp add: print_header_def Let_def)

lemma files_print_table [simp]: "files (print_table items ttl w) = files w"
  by (simp add: print_table_def Let_def)

lemma requests_print_table [simp]: "requests (print_table items ttl w) = requests w"
  by (simp add: print_table_def Let_def)

lemma files_requests_update [simp]: "files (w\<lparr>requests := q\<rparr>) = files w"
  by simp

lemma log_text_files: "files w' = files w \<Longrightarrow> log_text w' = log_text w"
  by (simp add: log_text_def read_file_def)

lemma read_file_files: "files w' = files w \<Longrightarrow> read_file name w' = read_file name w"
  by (simp add: read_file_def)

lemma log_text_print_header [simp]: "log_text (print_header ttl w) = log_text w"
  by (rule log_text_files) simp

lemma log_text_print_table [simp]: "log_text (print_table items ttl w) = log_text w"
  by (rule log_text_files) simp

lemma log_text_requests_update [simp]: "log_text (w\<lparr>requests := q\<rparr>) = log_text w"
  by (rule log_text_files) simp

lemma log_text_write_file_other:
  "name \<noteq> log_file \<Longrightarrow> log_text (write_file e name txt w) = log_text w"
  by (simp add: log_text_def read_file_write_file_other)

lemma report_files_not_log:
  "added_repos_file m \<noteq> log_file" "deleted_repos_file m \<noteq> log_file"
  by (simp_all add: added_repos_file_def deleted_repos_file_def log_file_def)

lemma log_text_save_report [simp]:
  "log_text (save_list_to_file e items (added_repos_file m) w) = log_text w"
  "log_text (save_list_to_file e items (deleted_repos_file m) w) = log_text w"
  by (simp_all add: save_list_to_file_def log_text_write_file_other report_files_not_log)

lemma find_previous_list_Some:
  "fst (find_previous_list e m w) = Some f \<Longrightarrow> find_previous_list e m w = (Some f, w)"
  by (simp add: find_previous_list_def Let_def split: if_splits)

lemma run_report_notified:
  assumes p: "fst (find_previous_list e m w) = Some f" and t: "read_file f w = Some txt"
    and s: "enable_slack m" "slack_webhook_url m \<noteq> []"
  shows "requests (snd (run_report e m cur w)) =
           requests w @
           [Post_webhook (slack_webhook_url m)
              \<lparr>color = (if added_repos_of cur (load_list txt) \<noteq> [] \<or>
                           deleted_repos_of cur (load_list txt) \<noteq> []
                        then ''#ff9800'' else ''#36a64f''),
               title = ''GitHub Repository Change Report for '' @ organization m,
               text_line = ''Changes detected on '' @ today m,
               added_title = ''Added Repositories ('' @
                 str_nat (length (added_repos_of cur (load_list txt))) @ '')'',
               added_value = (if added_repos_of cur (load_list txt) \<noteq> []
                              then Bullets (added_repos_of cur (load_list txt)) else None_text),
               deleted_title = ''Deleted Repositories ('' @
                 str_nat (length (deleted_repos_of cur (load_list txt))) @ '')'',
               deleted_value = (if deleted_repos_of cur (load_list txt) \<noteq> []
                                then Bullets (deleted_repos_of cur (load_list txt))
                                else None_text)\<rparr>]"
    and "log_text (snd (run_report e m cur w)) =
           log_text w @
           log_line e ''INFO'' (''Using previous list from '' @ remove_repo_list f @ '' for comparison'') @
           log_line e ''INFO'' ''Comparing current list with previous list'' @
           log_line e ''INFO''
             (''Found '' @ str_nat (length (added_repos_of cur (load_list txt))) @
              '' new repositories and '' @
              str_nat (length (deleted_repos_of cur (load_list txt))) @ '' deleted repositories'') @
           log_line e ''INFO'' ''Sending notification to Slack'' @
           (case post_failure (webhook_reply e) of
              None \<Rightarrow> log_line e ''INFO'' ''Slack notification sent successfully''
            | Some err \<Rightarrow> log_line e ''ERROR'' (''Failed to send Slack notification: '' @ err)) @
           log_line e ''INFO'' ''Script completed successfully''"
  unfolding run_report_def find_previous_list_Some[OF p] using t s
  by (simp_all add: Let_def compare_repositories_def send_slack_notification_def
      split: option.splits)

lemma filter_put:
  "\<not> P name \<Longrightarrow> filter (\<lambda>p. P (fst p)) (put name v fs) = filter (\<lambda>p. P (fst p)) fs"
  by (induction fs) auto

lemma kept_write_file: "\<not> P name \<Longrightarrow> kept P (write_file e name txt w) = kept P w"
  by (simp add: kept_def write_file_def filter_put)

lemma kept_remove_file: "\<not> P name \<Longrightarrow> kept P (remove_file name w) = kept P w"
  by (auto simp: kept_def remove_file_def intro: filter_cong)

lemma kept_files: "files w' = files w \<Longrightarrow> kept P w' = kept P w"
  by (simp add: kept_def)

lemma kept_log: "\<not> P log_file \<Longrightarrow> kept P (log e level message w) = kept P w"
  by (simp add: log_def Let_def append_file_def kept_write_file) (simp add: kept_def)

lemma kept_log_info: "\<not> P log_file \<Longrightarrow> kept P (log_info e message w) = kept P w"
  by (simp add: log_info_def kept_log)

lemma kept_log_warning: "\<not> P log_file \<Longrightarrow> kept P (log_warning e message w) = kept P w"
  by (simp add: log_warning_def kept_log)

lemma kept_log_error: "\<not> P log_file \<Longrightarrow> kept P (log_error e message w) = kept P w"
  by (simp add: log_error_def kept_log)

lemma kept_requests_update [simp]: "kept P (w\<lparr>requests := q\<rparr>) = kept P w"
  by (simp add: kept_def)

lemma kept_slept_update [simp]: "kept P (w\<lparr>slept := q\<rparr>) = kept P w"
  by (simp add: kept_def)

lemma kept_validate_token:
  "\<not> P log_file \<Longrightarrow> kept P (snd (validate_token e m w)) = kept P w"
  by (simp add: validate_token_def Let_def kept_log_info kept_log_warning kept_log_error
      split: vreply.splits)

lemma kept_validate_organization:
  "\<not> P log_file \<Longrightarrow> kept P (snd (validate_organization e m w)) = kept P w"
  by (simp add: validate_organization_def Let_def kept_log_info kept_log_error
      split: vreply.splits)

lemma kept_backup_one:
  "\<not> P log_file \<Longrightarrow> \<not> P file \<Longrightarrow> \<not> P (backup_dir m @ ''/'' @ ''old_'' @ file) \<Longrightarrow>
   kept P (backup_one e m file w) = kept P w"
  by (simp add: backup_one_def Let_def kept_remove_file kept_write_file kept_log_info
      split: option.splits)

lemma kept_request_with_retry:
  "\<not> P log_file \<Longrightarrow> kept P (snd (request_with_retry e m page attempts w)) = kept P w"
proof (induction attempts arbitrary: w)
  case Nil
  show ?case by (simp add: request_with_retry.simps)
next
  case (Cons attempt rest)
  then show ?case
    by (simp add: request_with_retry.simps Let_def kept_log_warning split: reply.splits)
qed

lemma kept_fetch_pages:
  "fetch_pages e m page acc tot w = Some y \<Longrightarrow> \<not> P log_file \<Longrightarrow>
   kept P (snd (snd y)) = kept P w"
proof (induction rule: fetch_pages.raw_induct[rotated 1, consumes 1, case_names step])
  case (step f e m page acc tot w y)
  obtain r w1 where p: "request_with_retry e m page [0, 1, 2] w = (r, w1)"
    by (cases "request_with_retry e m page [0, 1, 2] w")
  from kept_request_with_retry[where P = P and e = e and m = m and page = page and
      attempts = "[0, 1, 2]" and w = w, OF step.prems] p
  have k1: "kept P w1 = kept P w" by simp
  note li = kept_log_info[where P = P, OF step.prems]
    and le = kept_log_error[where P = P, OF step.prems]
  from step.hyps p show ?case
    by (auto simp: Let_def k1 li le step.IH[OF _ step.prems]
        split: sum.splits body.splits if_splits simp del: One_nat_def)
qed

lemma kept_fetch_repositories:
  assumes "fetch_repositories e m w = Some (repos, w')" and "\<not> P log_file"
    and "\<not> P (repo_list_file m)"
  shows "kept P w' = kept P w"
proof (cases "organization m = []")
  case True
  with assms show ?thesis
    by (auto simp: fetch_repositories_def Let_def kept_log_info kept_log_error)
next
  case False
  define w2 where "w2 = (if github_token m = []
                      then log_warning e ''GitHub token not provided. API rate limits may apply.''
                             (log_info e (''Fetching repositories for '' @ organization m) w)
                      else log_info e (''Fetching repositories for '' @ organization m) w)"
  have k2: "kept P w2 = kept P w"
    by (simp add: w2_def kept_log_info kept_log_warning assms(2))
  from assms(1) False obtain repositories tot w3 where
    fp: "fetch_pages e m 1 [] 0 w2 = Some (repositories, tot, w3)"
    and w': "w' = log_info e (''Successfully fetched '' @ str_nat tot @ '' repositories'')
                   (save_list_to_file e (sort repositories) (repo_list_file m) w3)"
    unfolding fetch_repositories_def Let_def w2_def[symmetric]
    by (auto split: option.splits simp del: One_nat_def)
  from kept_fetch_pages[where P = P, OF fp assms(2)] have "kept P w3 = kept P w2" by simp
  with k2 show ?thesis
    by (simp add: w' kept_log_info assms(2) save_list_to_file_def kept_write_file assms(3))
qed

lemma is_previous_not:
  "\<not> is_previous m log_file" "\<not> is_previous m (repo_list_file m)"
  "\<not> is_previous m (added_repos_file m)" "\<not> is_previous m (deleted_repos_file m)"
  "\<not> is_previous m (backup_dir m @ ''/'' @ ''old_'' @ file)"
  by (simp_all add: is_previous_def startswith_def log_file_def added_repos_file_def
      deleted_repos_file_def backup_dir_def)

lemma kept_print_header [simp]: "kept P (print_header ttl w) = kept P w"
  by (rule kept_files) simp

lemma kept_print_table [simp]: "kept P (print_table items ttl w) = kept P w"
  by (rule kept_files) simp

lemma kept_emit [simp]: "kept P (emit x w) = kept P w"
  by (rule kept_files) simp

lemma kept_backup_one_previous:
  "\<not> is_previous m file \<Longrightarrow>
   kept (is_previous m) (backup_one e m file w) = kept (is_previous m) w"
  by (rule kept_backup_one) (rule is_previous_not, assumption, rule is_previous_not)

lemma kept_backup_files:
  "kept (is_previous m) (backup_files e m w) = kept (is_previous m) w"
  by (simp add: backup_files_def kept_backup_one_previous kept_log_info is_previous_not)

lemma kept_after_validation:
  "kept (is_previous m) (after_validation e m w) = kept (is_previous m) w"
  by (simp add: after_validation_def kept_validate_token kept_validate_organization
      is_previous_not)

lemma kept_before_fetch: "kept (is_previous m) (before_fetch e m w) = kept (is_previous m) w"
  by (simp add: before_fetch_def kept_backup_files kept_after_validation kept_log_info
      is_previous_not)

lemma map_of_filter_key:
  "P k \<Longrightarrow> map_of (filter (\<lambda>p. P (fst p)) xs) k = map_of xs k"
  by (induction xs) auto

lemma insort_key_cong_set:
  "f x = g x \<Longrightarrow> (\<And>y. y \<in> set ys \<Longrightarrow> f y = g y) \<Longrightarrow> insort_key f x ys = insort_key g x ys"
  by (induction ys) auto

lemma sort_key_cong_set:
  "(\<And>x. x \<in> set xs \<Longrightarrow> f x = g x) \<Longrightarrow> sort_key f xs = sort_key g xs"
  by (induction xs) (auto intro: insort_key_cong_set)

lemma candidates_kept:
  "filter (is_previous m) (listdir w) =
     filter (\<lambda>name. CHR ''/'' \<notin> set name) (map fst (kept (is_previous m) w))"
  by (simp add: listdir_def kept_def filter_map comp_def conj_commute)

lemma find_previous_list_kept:
  assumes "kept (is_previous m) w' = kept (is_previous m) w"
  shows "fst (find_previous_list e m w') = fst (find_previous_list e m w)"
proof -
  have c: "filter (is_previous m) (listdir w') = filter (is_previous m) (listdir w)"
    by (simp add: candidates_kept assms)
  have g: "getmtime f w' = getmtime f w" if "is_previous m f" for f
    using map_of_filter_key[of "is_previous m" f "files w'"]
      map_of_filter_key[of "is_previous m" f "files w"] that assms
    by (simp add: getmtime_def kept_def)
  have s: "sort_key (\<lambda>f. - int (getmtime f w')) (filter (is_previous m) (listdir w)) =
           sort_key (\<lambda>f. - int (getmtime f w)) (filter (is_previous m) (listdir w))"
    by (rule sort_key_cong_set) (simp add: g)
  have d: "(\<lambda>f. startswith f ''repo-list-'' \<and> f \<noteq> repo_list_file m) = is_previous m"
    by (simp add: fun_eq_iff is_previous_def)
  show ?thesis
    unfolding find_previous_list_def Let_def d c by (simp add: s)
qed

lemma read_file_kept:
  assumes "kept P w' = kept P w" and "P f"
  shows "read_file f w' = read_file f w"
  using map_of_filter_key[of P f "files w'"] map_of_filter_key[of P f "files w"] assms
  by (simp add: read_file_def kept_def)

lemma requests_remove_file [simp]: "requests (remove_file name w) = requests w"
  by (simp add: remove_file_def)

lemma requests_backup_one [simp]: "requests (backup_one e m file w) = requests w"
  by (simp add: backup_one_def Let_def split: option.splits)

lemma requests_backup_files [simp]: "requests (backup_files e m w) = requests w"
  by (simp add: backup_files_def)

lemma requests_before_fetch:
  assumes "organization m \<noteq> []" and "github_token m \<noteq> []"
  shows "requests (before_fetch e m w) =
           requests w @ [Get_user (github_token m), Get_org (organization m) (github_token m)]"
  using assms
  by (simp add: before_fetch_def after_validation_def validate_token_def
      validate_organization_def Let_def split: vreply.splits)

lemma configured_scenario:
  assumes "home e = ''/home/dev''" and "date_today e = ''2024-05-02''"
    and "parse_ini e (ini_write acme_parser) = Inr acme_parser"
    and "config_text w = Some (ini_write acme_parser)"
  shows "configured e no_args w = Return acme_monitor (setup_logging e w)"
  using init_monitor_acme[OF assms]
  by (simp add: configured_def config_flags_def no_args_def truthy_def)

lemma end_to_end_state:
  "\<exists>w6. fetch_repositories (end_to_end_env\<lparr>webhook_reply := r\<rparr>) acme_monitor
           (before_fetch (end_to_end_env\<lparr>webhook_reply := r\<rparr>) acme_monitor
              (setup_logging (end_to_end_env\<lparr>webhook_reply := r\<rparr>) end_to_end_world)) =
           Some (sort [''acme/a'', ''acme/c'', ''acme/d''], w6)
       \<and> fst (find_previous_list (end_to_end_env\<lparr>webhook_reply := r\<rparr>) acme_monitor w6) =
           Some ''repo-list-2024-05-01''
       \<and> read_file ''repo-list-2024-05-01'' w6 =
           Some (snapshot_text [''acme/a'', ''acme/b'', ''acme/c''])
       \<and> requests w6 =
           [Get_user ''ghp_0123456789abcd'', Get_org ''acme'' ''ghp_0123456789abcd'',
            Get_repos ''acme'' ''ghp_0123456789abcd'' ''all'' 100 1]"
proof -
  define e where "e = end_to_end_env\<lparr>webhook_reply := r\<rparr>"
  define w where "w = setup_logging e end_to_end_world"
  have org: "organization acme_monitor \<noteq> []" and tok: "github_token acme_monitor \<noteq> []"
    by (simp_all add: acme_monitor_def)
  have "final_page (page_outcome e (Suc 0)) ((\<lambda>p. [''acme/a'', ''acme/c'', ''acme/d'']) (Suc 0))"
    by (simp add: e_def page_outcome_def end_to_end_env_def acme_env_def final_page_def)
  from fetch_repositories_full_then_final[of acme_monitor 0 e
      "\<lambda>p. [''acme/a'', ''acme/c'', ''acme/d'']", OF org _ this,
      where w = "before_fetch e acme_monitor w"]
  obtain w6 where
    f: "fetch_repositories e acme_monitor (before_fetch e acme_monitor w) =
          Some (sort [''acme/a'', ''acme/c'', ''acme/d''], w6)"
    and q: "requests w6 = requests (before_fetch e acme_monitor w) @ page_requests e acme_monitor [1]"
    by auto
  have "kept (is_previous acme_monitor) w6 =
        kept (is_previous acme_monitor) (before_fetch e acme_monitor w)"
    by (rule kept_fetch_repositories[OF f]) (rule is_previous_not)+
  then have k: "kept (is_previous acme_monitor) w6 =
             kept (is_previous acme_monitor) end_to_end_world"
    by (simp add: kept_before_fetch w_def setup_logging_def kept_log_info is_previous_not)
  have p0: "fst (find_previous_list e acme_monitor end_to_end_world) = Some ''repo-list-2024-05-01''"
    by (simp add: find_previous_list_def listdir_def end_to_end_world_def acme_world_def
        startswith_def repo_list_file_def acme_monitor_def)
  have p: "fst (find_previous_list e acme_monitor w6) = Some ''repo-list-2024-05-01''"
    using find_previous_list_kept[OF k, of e] p0 by simp
  have "is_previous acme_monitor ''repo-list-2024-05-01''"
    by (simp add: is_previous_def startswith_def repo_list_file_def acme_monitor_def)
  from read_file_kept[OF k, of "''repo-list-2024-05-01''", OF this]
  have rd: "read_file ''repo-list-2024-05-01'' w6 =
              Some (snapshot_text [''acme/a'', ''acme/b'', ''acme/c''])"
    by (simp add: read_file_def end_to_end_world_def acme_world_def)
  have "requests w = []"
    by (simp add: w_def setup_logging_def end_to_end_world_def acme_world_def)
  moreover have "page_requests e acme_monitor [1] =
      [Get_repos ''acme'' ''ghp_0123456789abcd'' ''all'' 100 1]"
    by (simp add: page_requests_def attempts_made_def e_def end_to_end_env_def acme_env_def
        acme_monitor_def)
  ultimately have rq: "requests w6 =
           [Get_user ''ghp_0123456789abcd'', Get_org ''acme'' ''ghp_0123456789abcd'',
            Get_repos ''acme'' ''ghp_0123456789abcd'' ''all'' 100 1]"
    using q requests_before_fetch[OF org tok, of e w] by (simp add: acme_monitor_def)
  from f p rd rq show ?thesis unfolding e_def w_def by blast
qed

lemma end_to_end_diff:
  "load_list (snapshot_text [''acme/a'', ''acme/b'', ''acme/c'']) = [''acme/a'', ''acme/b'', ''acme/c'']"
  "added_repos_of (sort [''acme/a'', ''acme/c'', ''acme/d'']) [''acme/a'', ''acme/b'', ''acme/c'']
     = [''acme/d'']"
  "deleted_repos_of (sort [''acme/a'', ''acme/c'', ''acme/d'']) [''acme/a'', ''acme/b'', ''acme/c'']
     = [''acme/b'']"
proof -
  have "load_list (snapshot_text [''acme/a'', ''acme/b'', ''acme/c'']) =
          filter (\<lambda>item. item \<noteq> []) [''acme/a'', ''acme/b'', ''acme/c'']"
    by (rule load_snapshot_text) (auto simp: LF_def CR_def strip_def isspace_def)
  then show "load_list (snapshot_text [''acme/a'', ''acme/b'', ''acme/c'']) =
          [''acme/a'', ''acme/b'', ''acme/c'']"
    by simp
  show "added_repos_of (sort [''acme/a'', ''acme/c'', ''acme/d''])
          [''acme/a'', ''acme/b'', ''acme/c''] = [''acme/d'']"
    by (simp add: added_repos_of_def not_in_comprehension_filter filter_sort)
  show "deleted_repos_of (sort [''acme/a'', ''acme/c'', ''acme/d''])
          [''acme/a'', ''acme/b'', ''acme/c''] = [''acme/b'']"
    by (simp add: deleted_repos_of_def not_in_comprehension_filter)
qed

lemma log_cong:
  "timestamp e = timestamp e' \<Longrightarrow> mtime_now e = mtime_now e' \<Longrightarrow>
   log e level message w = log e' level message w"
  by (simp add: log_def append_file_def write_file_def)

lemma request_with_retry_cong:
  assumes "timestamp e = timestamp e'" and "mtime_now e = mtime_now e'"
    and "repos_reply e = repos_reply e'"
  shows "request_with_retry e m page attempts w = request_with_retry e' m page attempts w"
proof (induction attempts arbitrary: w)
  case Nil
  show ?case by (simp add: request_with_retry.simps)
next
  case (Cons attempt rest)
  show ?case
    using assms Cons
    by (simp add: request_with_retry.simps log_warning_def log_cong[OF assms(1,2)] Let_def
        split: reply.splits)
qed

lemma fetch_pages_cong_Some:
  "fetch_pages e' m page acc tot w = Some y \<Longrightarrow>
   timestamp e = timestamp e' \<Longrightarrow> mtime_now e = mtime_now e' \<Longrightarrow>
   repos_reply e = repos_reply e' \<Longrightarrow>
   fetch_pages e m page acc tot w = Some y"
proof (induction rule: fetch_pages.raw_induct[rotated 1, consumes 1, case_names step])
  case (step f e' m page acc tot w y)
  note eqs = step.prems
  have rr: "request_with_retry e m page [0, 1, 2] w = request_with_retry e' m page [0, 1, 2] w"
    by (rule request_with_retry_cong[OF eqs])
  have lg: "\<And>level message v. log e level message v = log e' level message v"
    by (rule log_cong[OF eqs(1,2)])
  obtain r w1 where p: "request_with_retry e' m page [0, 1, 2] w = (r, w1)"
    by (cases "request_with_retry e' m page [0, 1, 2] w")
  show ?case
  proof (cases "\<exists>names. r = Inr (Repos (map Some names)) \<and> 100 \<le> length names")
    case True
    then obtain names where r: "r = Inr (Repos (map Some names))" and l: "100 \<le> length names"
      by blast
    from l have ne: "names \<noteq> []" by auto
    have mt: "map the (map Some names) = names" by (simp add: comp_def)
    have nn: "None \<notin> set (map Some names)" by auto
    let ?w2 = "log_info e' (''Retrieved '' @ str_nat (length names) @ '' repositories on page '' @
                 str_nat page @ '' (total: '' @ str_nat (tot + length names) @ '')'') w1"
    from step.hyps p r l ne nn mt
    have "f e' m (page + 1) (acc @ names) (tot + length names) ?w2 = Some y"
      by (simp add: Let_def del: One_nat_def)
    from step.IH[OF this eqs]
    have "fetch_pages e m (page + 1) (acc @ names) (tot + length names) ?w2 = Some y" .
    then show ?thesis
      using p r l ne nn mt rr
      by (subst fetch_pages.simps) (simp add: Let_def log_info_def lg del: One_nat_def)
  next
    case False
    have "(case r of Inr (Repos repos_data) \<Rightarrow>
             repos_data = [] \<or> None \<in> set repos_data \<or> length repos_data < 100 | _ \<Rightarrow> True)"
    proof (cases r)
      case (Inr b)
      show ?thesis
      proof (cases b)
        case (Repos repos_data)
        have "repos_data = [] \<or> None \<in> set repos_data \<or> length repos_data < 100"
        proof (rule ccontr)
          assume n: "\<not> (repos_data = [] \<or> None \<in> set repos_data \<or> length repos_data < 100)"
          then have "None \<notin> set repos_data" by simp
          then have "repos_data = map Some (map the repos_data)"
            by (induction repos_data) auto
          moreover have "100 \<le> length (map the repos_data)" using n by simp
          ultimately show False using False Inr Repos by blast
        qed
        with Inr Repos show ?thesis by simp
      qed (simp_all add: Inr)
    qed simp
    with step.hyps p rr show ?thesis
      by (subst fetch_pages.simps)
        (auto simp add: Let_def log_info_def log_error_def lg split: sum.splits body.splits if_splits
          simp del: One_nat_def)
  qed
qed


lemma fetch_pages_cong:
  assumes "timestamp e = timestamp e'" and "mtime_now e = mtime_now e'"
    and "repos_reply e = repos_reply e'"
  shows "fetch_pages e m page acc tot w = fetch_pages e' m page acc tot w"
proof (cases "fetch_pages e' m page acc tot w")
  case (Some y)
  from fetch_pages_cong_Some[OF Some assms] Some show ?thesis by simp
next
  case None
  show ?thesis
  proof (cases "fetch_pages e m page acc tot w")
    case (Some y)
    from fetch_pages_cong_Some[OF Some assms[symmetric]] None show ?thesis by simp
  qed (simp add: None)
qed

lemma fetch_repositories_cong:
  assumes "timestamp e = timestamp e'" and "mtime_now e = mtime_now e'"
    and "repos_reply e = repos_reply e'"
  shows "fetch_repositories e m w = fetch_repositories e' m w"
proof -
  have lg: "log e = log e'"
    by (intro ext) (rule log_cong[OF assms(1,2)])
  have 1: "log_info e = log_info e'" "log_warning e = log_warning e'" "log_error e = log_error e'"
    by (simp_all add: fun_eq_iff log_info_def log_warning_def log_error_def lg)
  have 2: "save_list_to_file e = save_list_to_file e'"
    by (intro ext) (simp add: save_list_to_file_def write_file_def assms(2))
  have 3: "fetch_pages e = fetch_pages e'"
    by (intro ext) (rule fetch_pages_cong[OF assms])
  show ?thesis
    unfolding fetch_repositories_def 1 2 3 ..
qed

lemma log_webhook [simp]: "log (e\<lparr>webhook_reply := r\<rparr>) = log e"
  by (intro ext) (rule log_cong; simp)

lemma log_info_webhook [simp]: "log_info (e\<lparr>webhook_reply := r\<rparr>) = log_info e"
  by (intro ext) (simp add: log_info_def)

lemma log_warning_webhook [simp]: "log_warning (e\<lparr>webhook_reply := r\<rparr>) = log_warning e"
  by (intro ext) (simp add: log_warning_def)

lemma log_error_webhook [simp]: "log_error (e\<lparr>webhook_reply := r\<rparr>) = log_error e"
  by (intro ext) (simp add: log_error_def)

lemma validate_token_webhook [simp]:
  "validate_token (e\<lparr>webhook_reply := r\<rparr>) = validate_token e"
  by (intro ext) (simp add: validate_token_def Let_def split: vreply.splits)

lemma validate_organization_webhook [simp]:
  "validate_organization (e\<lparr>webhook_reply := r\<rparr>) = validate_organization e"
  by (intro ext) (simp add: validate_organization_def Let_def split: vreply.splits)

lemma backup_files_webhook [simp]: "backup_files (e\<lparr>webhook_reply := r\<rparr>) = backup_files e"
  by (intro ext) (simp add: backup_files_def backup_one_def write_file_def Let_def fun_eq_iff
      split: option.splits)

lemma fetch_repositories_webhook [simp]:
  "fetch_repositories (e\<lparr>webhook_reply := r\<rparr>) = fetch_repositories e"
  by (intro ext) (simp add: fetch_repositories_cong[of "e\<lparr>webhook_reply := r\<rparr>" e])

lemma validated_webhook [simp]: "validated (e\<lparr>webhook_reply := r\<rparr>) = validated e"
  by (intro ext) (simp add: validated_def)

lemma before_fetch_webhook [simp]: "before_fetch (e\<lparr>webhook_reply := r\<rparr>) = before_fetch e"
  by (intro ext) (simp add: before_fetch_def after_validation_def)


lemma load_config_webhook [simp]: "load_config (e\<lparr>webhook_reply := r\<rparr>) = load_config e"
  by (intro ext) (simp add: load_config_def cong: option.case_cong)

lemma setup_logging_webhook [simp]: "setup_logging (e\<lparr>webhook_reply := r\<rparr>) = setup_logging e"
  by (intro ext) (simp add: setup_logging_def)

lemma init_monitor_webhook [simp]: "init_monitor (e\<lparr>webhook_reply := r\<rparr>) = init_monitor e"
  by (intro ext) (simp add: init_monitor_def cong: result.case_cong)

lemma update_config_webhook [simp]:
  "update_config (e\<lparr>webhook_reply := r\<rparr>) = update_config e"
  by (intro ext) (simp add: update_config_def Let_def cong: result.case_cong)

lemma configured_webhook [simp]: "configured (e\<lparr>webhook_reply := r\<rparr>) = configured e"
  by (intro ext) (simp add: configured_def cong: result.case_cong if_cong)

lemma post_failure_None:
  "(post_failure x = None) =
     (\<exists>status reason url. x = Post_response status reason url \<and> (status < 400 \<or> 600 \<le> status))"
  by (cases x) (auto simp: post_failure_def)

lemma run_with_notification:
  assumes "validated e m w"
    and "fetch_repositories e m (before_fetch e m w) = Some (current_repos, w6)"
    and "current_repos \<noteq> []"
    and "fst (find_previous_list e m w6) = Some previous_list_file"
    and "read_file previous_list_file w6 = Some previous_text"
    and "enable_slack m" and "slack_webhook_url m \<noteq> []"
  shows "(let added_repos = added_repos_of current_repos (load_list previous_text);
              deleted_repos = deleted_repos_of current_repos (load_list previous_text)
          in map_option fst (run e m w) = Some True
           \<and> map_option (requests \<circ> snd) (run e m w) =
               Some (requests w6 @
                     [Post_webhook (slack_webhook_url m)
                        \<lparr>color = (if added_repos \<noteq> [] \<or> deleted_repos \<noteq> []
                                  then ''#ff9800'' else ''#36a64f''),
                         title = ''GitHub Repository Change Report for '' @ organization m,
                         text_line = ''Changes detected on '' @ today m,
                         added_title =
                           ''Added Repositories ('' @ str_nat (length added_repos) @ '')'',
                         added_value =
                           (if added_repos \<noteq> [] then Bullets added_repos else None_text),
                         deleted_title =
                           ''Deleted Repositories ('' @ str_nat (length deleted_repos) @ '')'',
                         deleted_value =
                           (if deleted_repos \<noteq> [] then Bullets deleted_repos else None_text)\<rparr>])
           \<and> map_option (log_text \<circ> snd) (run e m w) =
               Some (log_text w6 @
                     log_line e ''INFO''
                       (''Using previous list from '' @ remove_repo_list previous_list_file @
                        '' for comparison'') @
                     log_line e ''INFO'' ''Comparing current list with previous list'' @
                     log_line e ''INFO''
                       (''Found '' @ str_nat (length added_repos) @ '' new repositories and '' @
                        str_nat (length deleted_repos) @ '' deleted repositories'') @
                     log_line e ''INFO'' ''Sending notification to Slack'' @
                     (case post_failure (webhook_reply e) of
                        None \<Rightarrow> log_line e ''INFO'' ''Slack notification sent successfully''
                      | Some err \<Rightarrow>
                          log_line e ''ERROR'' (''Failed to send Slack notification: '' @ err)) @
                     log_line e ''INFO'' ''Script completed successfully'')
           \<and> (post_failure (webhook_reply e) = None) =
               (\<exists>status reason url. webhook_reply e = Post_response status reason url \<and>
                                     (status < 400 \<or> 600 \<le> status))
           \<and> map_option fst (run (e\<lparr>webhook_reply := r\<rparr>) m w) = Some True
           \<and> (configured e a w0 = Return m w \<and> \<not> arg_show_config a \<and> \<not> arg_dry_run a \<longrightarrow>
                map_option fst (main e a w0) = Some 0
                \<and> map_option fst (main (e\<lparr>webhook_reply := r\<rparr>) a w0) = Some 0))"
proof -
  note rv = run_validated[OF assms(1)]
  have run: "run e m w = Some (run_report e m current_repos w6)"
    using rv assms(2,3) by simp
  have v': "validated (e\<lparr>webhook_reply := r\<rparr>) m w" using assms(1) by simp
  have run': "run (e\<lparr>webhook_reply := r\<rparr>) m w =
                Some (run_report (e\<lparr>webhook_reply := r\<rparr>) m current_repos w6)"
    using run_validated[OF v'] assms(2,3) by simp
  have org: "organization m \<noteq> []" using assms(1) by (simp add: validated_def)
  have r1: "map_option fst (run e m w) = Some True" by (simp add: run fst_run_report)
  have r1b: "map_option fst (run (e\<lparr>webhook_reply := r\<rparr>) m w) = Some True"
    by (simp add: run' fst_run_report)
  have r4: "map_option fst (main e a w0) = Some 0"
    if "configured e a w0 = Return m w" "\<not> arg_show_config a" "\<not> arg_dry_run a"
    using main_exit_code[OF that org] run by (simp add: fst_run_report)
  have r4b: "map_option fst (main (e\<lparr>webhook_reply := r\<rparr>) a w0) = Some 0"
    if "configured e a w0 = Return m w" "\<not> arg_show_config a" "\<not> arg_dry_run a"
  proof -
    from that(1) have "configured (e\<lparr>webhook_reply := r\<rparr>) a w0 = Return m w" by simp
    from main_exit_code[OF this that(2,3) org] run' show ?thesis by (simp add: fst_run_report)
  qed
  note rr = run_report_notified[OF assms(4,5,6,7), of current_repos]
  show ?thesis
    unfolding Let_def
    using r1 r1b r4 r4b by (simp add: run rr post_failure_None)
qed

text \<open>
  C8, as the code has it. Take a run that passes the checks, fetches a non-empty list and
  finds a previous snapshot, with the notification enabled and a webhook URL set. It posts
  the report to the webhook, once, after the requests of the fetch. To the log it writes,
  after the line that announces the notification, the line of success or, if the post
  failed, the error with the text of the failure; then it goes on to the summary and to the
  line "Script completed successfully". It returns \<^verbatim>\<open>True\<close> and \<^verbatim>\<open>main\<close> exits with code 0,
  whatever the webhook answers. The post fails when \<^verbatim>\<open>requests.post\<close> raises or when the
  status of the response is from 400 to 599, which is when \<^verbatim>\<open>raise_for_status\<close> raises; a
  response with any other status counts as sent.
\<close>

theorem notification_failure_not_fatal:
  assumes "validated e m w"
    and "fetch_repositories e m (before_fetch e m w) = Some (current_repos, w6)"
    and "current_repos \<noteq> []"
    and "fst (find_previous_list e m w6) = Some previous_list_file"
    and "read_file previous_list_file w6 = Some previous_text"
    and "enable_slack m" and "slack_webhook_url m \<noteq> []"
  shows "(let added_repos = added_repos_of current_repos (load_list previous_text);
              deleted_repos = deleted_repos_of current_repos (load_list previous_text)
          in map_option fst (run e m w) = Some True
           \<and> map_option (requests \<circ> snd) (run e m w) =
               Some (requests w6 @
                     [Post_webhook (slack_webhook_url m)
                        \<lparr>color = (if added_repos \<noteq> [] \<or> deleted_repos \<noteq> []
                                  then ''#ff9800'' else ''#36a64f''),
                         title = ''GitHub Repository Change Report for '' @ organization m,
                         text_line = ''Changes detected on '' @ today m,
                         added_title =
                           ''Added Repositories ('' @ str_nat (length added_repos) @ '')'',
                         added_value =
                           (if added_repos \<noteq> [] then Bullets added_repos else None_text),
                         deleted_title =
                           ''Deleted Repositories ('' @ str_nat (length deleted_repos) @ '')'',
                         deleted_value =
                           (if deleted_repos \<noteq> [] then Bullets deleted_repos else None_text)\<rparr>])
           \<and> map_option (log_text \<circ> snd) (run e m w) =
               Some (log_text w6 @
                     log_line e ''INFO''
                       (''Using previous list from '' @ remove_repo_list previous_list_file @
                        '' for comparison'') @
                     log_line e ''INFO'' ''Comparing current list with previous list'' @
                     log_line e ''INFO''
                       (''Found '' @ str_nat (length added_repos) @ '' new repositories and '' @
                        str_nat (length deleted_repos) @ '' deleted repositories'') @
                     log_line e ''INFO'' ''Sending notification to Slack'' @
                     (case post_failure (webhook_reply e) of
                        None \<Rightarrow> log_line e ''INFO'' ''Slack notification sent successfully''
                      | Some err \<Rightarrow>
                          log_line e ''ERROR'' (''Failed to send Slack notification: '' @ err)) @
                     log_line e ''INFO'' ''Script completed successfully'')
           \<and> (post_failure (webhook_reply e) = None) =
               (\<exists>status reason url. webhook_reply e = Post_response status reason url \<and>
                                     (status < 400 \<or> 600 \<le> status))
           \<and> map_option fst (run (e\<lparr>webhook_reply := r\<rparr>) m w) = Some True
           \<and> (configured e a w0 = Return m w \<and> \<not> arg_show_config a \<and> \<not> arg_dry_run a \<longrightarrow>
                map_option fst (main e a w0) = Some 0
                \<and> map_option fst (main (e\<lparr>webhook_reply := r\<rparr>) a w0) = Some 0))"
  using assms by (rule run_with_notification)

lemma end_to_end_env_self:
  "end_to_end_env\<lparr>webhook_reply :=
     Post_response 500 ''Internal Server Error''
       ''https://hooks.slack.com/services/T0/B0/XXXXXXXX''\<rparr> = end_to_end_env"
  by (simp add: end_to_end_env_def)

lemma end_to_end_validated: "validated (end_to_end_env\<lparr>webhook_reply := r\<rparr>) acme_monitor w"
  by (rule validated_200) (simp_all add: end_to_end_env_def acme_env_def acme_monitor_def)

lemma end_to_end_configured:
  "configured (end_to_end_env\<lparr>webhook_reply := r\<rparr>) no_args end_to_end_world =
     Return acme_monitor (setup_logging (end_to_end_env\<lparr>webhook_reply := r\<rparr>) end_to_end_world)"
  by (rule configured_scenario)
    (simp_all add: end_to_end_env_def acme_env_def end_to_end_world_def acme_world_def)

lemma end_to_end_values:
  "str_nat (length [''acme/d'']) = ''1''" "str_nat (length [''acme/b'']) = ''1''"
  "remove_repo_list ''repo-list-2024-05-01'' = ''2024-05-01''"
  "post_failure (Post_response 500 ''Internal Server Error''
                   ''https://hooks.slack.com/services/T0/B0/XXXXXXXX'') =
     Some ''500 Server Error: Internal Server Error for url: https://hooks.slack.com/services/T0/B0/XXXXXXXX''"
  "post_failure (Post_response 304 ''Not Modified''
                   ''https://hooks.slack.com/services/T0/B0/XXXXXXXX'') = None"
  "timestamp (end_to_end_env\<lparr>webhook_reply := r\<rparr>) = ''2024-05-02 09:00:00''"
  "timestamp end_to_end_env = ''2024-05-02 09:00:00''"
  "webhook_reply end_to_end_env =
     Post_response 500 ''Internal Server Error'' ''https://hooks.slack.com/services/T0/B0/XXXXXXXX''"
proof -
  have s1: "str_nat 1 = ''1''" and s500: "str_nat 500 = ''500''" by code_simp+
  show "str_nat (length [''acme/d'']) = ''1''" "str_nat (length [''acme/b'']) = ''1''"
    using s1 by simp_all
  show "remove_repo_list ''repo-list-2024-05-01'' = ''2024-05-01''"
    by (simp add: startswith_def)
  show "post_failure (Post_response 500 ''Internal Server Error''
                   ''https://hooks.slack.com/services/T0/B0/XXXXXXXX'') =
     Some ''500 Server Error: Internal Server Error for url: https://hooks.slack.com/services/T0/B0/XXXXXXXX''"
    by (simp add: post_failure_def s500)
  show "post_failure (Post_response 304 ''Not Modified''
                   ''https://hooks.slack.com/services/T0/B0/XXXXXXXX'') = None"
    by (simp add: post_failure_def)
  show "timestamp (end_to_end_env\<lparr>webhook_reply := r\<rparr>) = ''2024-05-02 09:00:00''"
    "timestamp end_to_end_env = ''2024-05-02 09:00:00''"
    "webhook_reply end_to_end_env =
       Post_response 500 ''Internal Server Error'' ''https://hooks.slack.com/services/T0/B0/XXXXXXXX''"
    by (simp_all add: end_to_end_env_def acme_env_def)
qed

theorem notification_failure_not_fatal_witness:
  "map_option fst (run end_to_end_env acme_monitor (setup_logging end_to_end_env end_to_end_world))
     = Some True
   \<and> map_option (requests \<circ> snd)
       (run end_to_end_env acme_monitor (setup_logging end_to_end_env end_to_end_world))
     = Some [Get_user ''ghp_0123456789abcd'', Get_org ''acme'' ''ghp_0123456789abcd'',
             Get_repos ''acme'' ''ghp_0123456789abcd'' ''all'' 100 1,
             Post_webhook ''https://hooks.slack.com/services/T0/B0/XXXXXXXX''
               \<lparr>color = ''#ff9800'',
                title = ''GitHub Repository Change Report for acme'',
                text_line = ''Changes detected on 2024-05-02'',
                added_title = ''Added Repositories (1)'',
                added_value = Bullets [''acme/d''],
                deleted_title = ''Deleted Repositories (1)'',
                deleted_value = Bullets [''acme/b'']\<rparr>]
   \<and> map_option
       (\<lambda>x. suffix
          (''[2024-05-02 09:00:00] [INFO] Sending notification to Slack'' @ [LF] @
           ''[2024-05-02 09:00:00] [ERROR] Failed to send Slack notification: 500 Server Error: Internal Server Error for url: https://hooks.slack.com/services/T0/B0/XXXXXXXX'' @ [LF] @
           ''[2024-05-02 09:00:00] [INFO] Script completed successfully'' @ [LF])
          (log_text (snd x)))
       (run end_to_end_env acme_monitor (setup_logging end_to_end_env end_to_end_world))
     = Some True
   \<and> map_option fst (main end_to_end_env no_args end_to_end_world) = Some 0
   \<and> map_option fst
       (main (end_to_end_env\<lparr>webhook_reply := Post_exception ''Connection refused''\<rparr>) no_args
          end_to_end_world) = Some 0"
proof -
  define w where "w = setup_logging end_to_end_env end_to_end_world"
  from end_to_end_state[of "Post_response 500 ''Internal Server Error''
       ''https://hooks.slack.com/services/T0/B0/XXXXXXXX''"]
  obtain w6 where
    f: "fetch_repositories end_to_end_env acme_monitor (before_fetch end_to_end_env acme_monitor w)
          = Some (sort [''acme/a'', ''acme/c'', ''acme/d''], w6)"
    and p: "fst (find_previous_list end_to_end_env acme_monitor w6) = Some ''repo-list-2024-05-01''"
    and rd: "read_file ''repo-list-2024-05-01'' w6 =
               Some (snapshot_text [''acme/a'', ''acme/b'', ''acme/c''])"
    and rq: "requests w6 =
           [Get_user ''ghp_0123456789abcd'', Get_org ''acme'' ''ghp_0123456789abcd'',
            Get_repos ''acme'' ''ghp_0123456789abcd'' ''all'' 100 1]"
    unfolding end_to_end_env_self w_def by blast
  have v: "validated end_to_end_env acme_monitor w"
    using end_to_end_validated[of "webhook_reply end_to_end_env" w]
    by (simp add: end_to_end_values end_to_end_env_self)
  have c: "configured end_to_end_env no_args end_to_end_world = Return acme_monitor w"
    using end_to_end_configured[of "webhook_reply end_to_end_env"]
    by (simp add: end_to_end_values end_to_end_env_self w_def)
  have "length (sort [''acme/a'', ''acme/c'', ''acme/d'']) = 3"
    by (simp only: length_sort) simp
  then have ne: "sort [''acme/a'', ''acme/c'', ''acme/d''] \<noteq> []"
    by (metis length_0_conv zero_neq_numeral)
  have es: "enable_slack acme_monitor" and url: "slack_webhook_url acme_monitor \<noteq> []"
    by (simp_all add: acme_monitor_def)
  have a: "\<not> arg_show_config no_args" "\<not> arg_dry_run no_args" by (simp_all add: no_args_def)
  note t = notification_failure_not_fatal[OF v f ne p rd es url,
      where r = "Post_exception ''Connection refused''" and a = no_args
        and ?w0.0 = end_to_end_world,
      unfolded Let_def end_to_end_diff end_to_end_values(1-5,8) acme_monitor_fields rq]
  from t have t1: "map_option fst (run end_to_end_env acme_monitor w) = Some True"
    by (rule conjunct1)
  from t have t2: "map_option (requests \<circ> snd) (run end_to_end_env acme_monitor w) =
      Some [Get_user ''ghp_0123456789abcd'', Get_org ''acme'' ''ghp_0123456789abcd'',
             Get_repos ''acme'' ''ghp_0123456789abcd'' ''all'' 100 1,
             Post_webhook ''https://hooks.slack.com/services/T0/B0/XXXXXXXX''
               \<lparr>color = ''#ff9800'',
                title = ''GitHub Repository Change Report for acme'',
                text_line = ''Changes detected on 2024-05-02'',
                added_title = ''Added Repositories (1)'',
                added_value = Bullets [''acme/d''],
                deleted_title = ''Deleted Repositories (1)'',
                deleted_value = Bullets [''acme/b'']\<rparr>]"
    by simp
  define pre where "pre = log_text w6 @
      log_line end_to_end_env ''INFO''
        (''Using previous list from '' @ ''2024-05-01'' @ '' for comparison'') @
      log_line end_to_end_env ''INFO'' ''Comparing current list with previous list'' @
      log_line end_to_end_env ''INFO''
        (''Found '' @ ''1'' @ '' new repositories and '' @ ''1'' @ '' deleted repositories'')"
  define tail3 where "tail3 =
      log_line end_to_end_env ''INFO'' ''Sending notification to Slack'' @
      log_line end_to_end_env ''ERROR''
        (''Failed to send Slack notification: '' @
         ''500 Server Error: Internal Server Error for url: https://hooks.slack.com/services/T0/B0/XXXXXXXX'') @
      log_line end_to_end_env ''INFO'' ''Script completed successfully''"
  from t have t3: "map_option (log_text \<circ> snd) (run end_to_end_env acme_monitor w) =
      Some (pre @ tail3)"
    unfolding pre_def tail3_def by simp
  have l3: "tail3 =
      ''[2024-05-02 09:00:00] [INFO] Sending notification to Slack'' @ [LF] @
      ''[2024-05-02 09:00:00] [ERROR] Failed to send Slack notification: 500 Server Error: Internal Server Error for url: https://hooks.slack.com/services/T0/B0/XXXXXXXX'' @ [LF] @
      ''[2024-05-02 09:00:00] [INFO] Script completed successfully'' @ [LF]"
    unfolding tail3_def by (simp add: log_line_def end_to_end_values)
  have t3': "map_option
       (\<lambda>x. suffix
          (''[2024-05-02 09:00:00] [INFO] Sending notification to Slack'' @ [LF] @
           ''[2024-05-02 09:00:00] [ERROR] Failed to send Slack notification: 500 Server Error: Internal Server Error for url: https://hooks.slack.com/services/T0/B0/XXXXXXXX'' @ [LF] @
           ''[2024-05-02 09:00:00] [INFO] Script completed successfully'' @ [LF])
          (log_text (snd x)))
       (run end_to_end_env acme_monitor w) = Some True"
  proof -
    from t1 obtain x where x: "run end_to_end_env acme_monitor w = Some x" by auto
    with t3 have "log_text (snd x) = pre @ tail3" by simp
    then have "suffix tail3 (log_text (snd x))" by (rule suffixI)
    then show ?thesis unfolding x l3 by simp
  qed
  from t c a have t5: "map_option fst (main end_to_end_env no_args end_to_end_world) = Some 0"
    and t6: "map_option fst
       (main (end_to_end_env\<lparr>webhook_reply := Post_exception ''Connection refused''\<rparr>) no_args
          end_to_end_world) = Some 0"
    by blast+
  from t1 t2 t3' t5 t6 show ?thesis unfolding w_def by (intro conjI)
qed

text \<open>
  A response 304 Not Modified is not a 2xx response, and it is no failure for the code:
  the notification returns \<^verbatim>\<open>True\<close> and the log of the run says that it was sent.
\<close>

theorem notification_failure_counterexample:
  "fst (send_slack_notification not_modified_env acme_monitor [''acme/d''] [''acme/b'']
          end_to_end_world) = True
   \<and> map_option
       (\<lambda>x. suffix
          (''[2024-05-02 09:00:00] [INFO] Sending notification to Slack'' @ [LF] @
           ''[2024-05-02 09:00:00] [INFO] Slack notification sent successfully'' @ [LF] @
           ''[2024-05-02 09:00:00] [INFO] Script completed successfully'' @ [LF])
          (log_text (snd x)))
       (run not_modified_env acme_monitor (setup_logging not_modified_env end_to_end_world))
     = Some True"
proof -
  define e where "e = not_modified_env"
  define w where "w = setup_logging e end_to_end_world"
  have wr: "webhook_reply e =
      Post_response 304 ''Not Modified'' ''https://hooks.slack.com/services/T0/B0/XXXXXXXX''"
    and ts: "timestamp e = ''2024-05-02 09:00:00''"
    by (simp_all add: e_def not_modified_env_def end_to_end_values)
  have s: "fst (send_slack_notification e acme_monitor [''acme/d''] [''acme/b'']
                  end_to_end_world) = True"
    by (simp add: send_slack_notification_def Let_def wr end_to_end_values acme_monitor_fields)
  from end_to_end_state[of "Post_response 304 ''Not Modified''
       ''https://hooks.slack.com/services/T0/B0/XXXXXXXX''"]
  obtain w6 where
    f: "fetch_repositories e acme_monitor (before_fetch e acme_monitor w)
          = Some (sort [''acme/a'', ''acme/c'', ''acme/d''], w6)"
    and p: "fst (find_previous_list e acme_monitor w6) = Some ''repo-list-2024-05-01''"
    and rd: "read_file ''repo-list-2024-05-01'' w6 =
               Some (snapshot_text [''acme/a'', ''acme/b'', ''acme/c''])"
    unfolding e_def not_modified_env_def w_def by blast
  have v: "validated e acme_monitor w"
    unfolding e_def not_modified_env_def by (rule end_to_end_validated)
  have "length (sort [''acme/a'', ''acme/c'', ''acme/d'']) = 3"
    by (simp only: length_sort) simp
  then have ne: "sort [''acme/a'', ''acme/c'', ''acme/d''] \<noteq> []"
    by (metis length_0_conv zero_neq_numeral)
  have es: "enable_slack acme_monitor" and url: "slack_webhook_url acme_monitor \<noteq> []"
    by (simp_all add: acme_monitor_def)
  note t = run_with_notification[OF v f ne p rd es url,
      unfolded Let_def end_to_end_diff wr end_to_end_values(1-5)]
  from t have t1: "map_option fst (run e acme_monitor w) = Some True"
    by (rule conjunct1)
  define pre where "pre = log_text w6 @
      log_line e ''INFO''
        (''Using previous list from '' @ ''2024-05-01'' @ '' for comparison'') @
      log_line e ''INFO'' ''Comparing current list with previous list'' @
      log_line e ''INFO''
        (''Found '' @ ''1'' @ '' new repositories and '' @ ''1'' @ '' deleted repositories'')"
  define tail3 where "tail3 =
      log_line e ''INFO'' ''Sending notification to Slack'' @
      log_line e ''INFO'' ''Slack notification sent successfully'' @
      log_line e ''INFO'' ''Script completed successfully''"
  from t have t3: "map_option (log_text \<circ> snd) (run e acme_monitor w) = Some (pre @ tail3)"
    unfolding pre_def tail3_def by simp
  have l3: "tail3 =
      ''[2024-05-02 09:00:00] [INFO] Sending notification to Slack'' @ [LF] @
      ''[2024-05-02 09:00:00] [INFO] Slack notification sent successfully'' @ [LF] @
      ''[2024-05-02 09:00:00] [INFO] Script completed successfully'' @ [LF]"
    unfolding tail3_def by (simp add: log_line_def ts)
  from t1 obtain x where x: "run e acme_monitor w = Some x" by auto
  with t3 have "log_text (snd x) = pre @ tail3" by simp
  then have "suffix tail3 (log_text (snd x))" by (rule suffixI)
  then have "map_option (\<lambda>x. suffix tail3 (log_text (snd x))) (run e acme_monitor w) = Some True"
    unfolding x by simp
  with s show ?thesis unfolding l3 e_def w_def by simp
qed

end
